theory Spec2Isabelle
  imports Main "HOL-Library.Sublist"
begin

section \<open>The RabbitMQ topology handler (lambda/rabbitmq-topology/index.py)\<close>

text \<open>
  The handler \<^verbatim>\<open>on_event\<close> is embedded as a function from the event and the
  runtime it runs in to its result and the external calls it made. Exceptions are values
  of \<open>py_error\<close>; the secret store, the HTTP transport, \<^verbatim>\<open>json.loads\<close>,
  the process environment and \<^verbatim>\<open>str()\<close> of a value that is not a string are
  fields of the runtime. \<^verbatim>\<open>print\<close> is left out: the log is no part of any
  result or request.
\<close>

subsection \<open>Python values\<close>

text \<open>
  What \<^verbatim>\<open>json.loads\<close> returns: \<^verbatim>\<open>None\<close>, a bool, an int, a str, a
  list or a dict. A str is held as the bytes of its UTF-8 encoding, so that
  \<^verbatim>\<open>.encode("utf-8")\<close> is the identity; a dict is held as its items in insertion
  order and read with \<open>map_of\<close>. Numbers with a fraction are not represented.
\<close>

datatype json =
    JNull
  | JBool bool
  | JInt int
  | JStr string
  | JArr "json list"
  | JObj "(string \<times> json) list"

text \<open>
  The exceptions. \<open>HTTPError\<close> holds the status code and the body text that can still
  be read from the exception object.
\<close>

datatype py_error =
    KeyError string
  | TypeError
  | AttributeError
  | JSONDecodeError
  | ValueError
  | HTTPError int string
  | URLError
  | TimeoutError
  | ClientError

text \<open>Truth value of a Python object, as \<^verbatim>\<open>or\<close> and \<^verbatim>\<open>not\<close> test it.\<close>

fun truthy :: "json \<Rightarrow> bool" where
  "truthy JNull = False"
| "truthy (JBool b) = b"
| "truthy (JInt n) = (n \<noteq> 0)"
| "truthy (JStr s) = (s \<noteq> [])"
| "truthy (JArr xs) = (xs \<noteq> [])"
| "truthy (JObj kvs) = (kvs \<noteq> [])"

text \<open>\<^verbatim>\<open>d[k]\<close> on a dict: KeyError when the key is absent.\<close>

definition getitem :: "(string \<times> json) list \<Rightarrow> string \<Rightarrow> py_error + json" where
  "getitem d k = (case map_of d k of None \<Rightarrow> Inl (KeyError k) | Some v \<Rightarrow> Inr v)"

text \<open>\<^verbatim>\<open>d.get(k, default)\<close> on a dict; \<^verbatim>\<open>d.get(k)\<close> is \<open>get_or d k JNull\<close>.\<close>

definition get_or :: "(string \<times> json) list \<Rightarrow> string \<Rightarrow> json \<Rightarrow> json" where
  "get_or d k dflt = (case map_of d k of None \<Rightarrow> dflt | Some v \<Rightarrow> v)"

text \<open>\<^verbatim>\<open>a or b\<close>: the first operand when it is true, the second otherwise.\<close>

definition py_or :: "json \<Rightarrow> json \<Rightarrow> json" where
  "py_or a b = (if truthy a then a else b)"

text \<open>
  \<^verbatim>\<open>for x in v\<close>: a list gives its elements, a dict its keys, a str its
  characters (one-character strs, here one per byte: the loop bodies below raise
  TypeError on the first of them either way); anything else is not iterable.
\<close>

fun py_iter :: "json \<Rightarrow> py_error + json list" where
  "py_iter (JArr xs) = Inr xs"
| "py_iter (JObj kvs) = Inr (map (\<lambda>kv. JStr (fst kv)) kvs)"
| "py_iter (JStr s) = Inr (map (\<lambda>c. JStr [c]) s)"
| "py_iter _ = Inl TypeError"

text \<open>\<^verbatim>\<open>str(n)\<close> of a counter (the counters start at 0 and only grow).\<close>

definition digit_char :: "nat \<Rightarrow> char" where
  "digit_char d = ''0123456789'' ! d"

function str_nat :: "nat \<Rightarrow> string" where
  "str_nat n = (if n < 10 then [digit_char n] else str_nat (n div 10) @ [digit_char (n mod 10)])"
  by pat_completeness auto
termination
  by (relation "measure (\<lambda>n. n)") auto

declare str_nat.simps [simp del]

subsection \<open>urllib.parse.quote(s, safe="")\<close>

text \<open>
  The characters \<^verbatim>\<open>quote\<close> never encodes are the ASCII letters, the digits and
  \<^verbatim>\<open>_.-~\<close>; with \<^verbatim>\<open>safe=""\<close> nothing else is kept, the slash included. Every
  other byte of the UTF-8 encoding becomes \<^verbatim>\<open>%XX\<close> with upper-case hex digits.
  An argument that is not a str (nor bytes) raises TypeError.
\<close>

definition always_safe :: "char \<Rightarrow> bool" where
  "always_safe c \<longleftrightarrow>
     c \<in> set ''ABCDEFGHIJKLMNOPQRSTUVWXYZabcdefghijklmnopqrstuvwxyz0123456789_.-~''"

definition hex_digit :: "nat \<Rightarrow> char" where
  "hex_digit d = ''0123456789ABCDEF'' ! d"

definition quote_byte :: "char \<Rightarrow> string" where
  "quote_byte c =
     (if always_safe c then [c]
      else [CHR ''%'', hex_digit (of_char c div 16), hex_digit (of_char c mod 16)])"

definition quote_from_bytes :: "string \<Rightarrow> string" where
  "quote_from_bytes bs = concat (map quote_byte bs)"

fun quote :: "json \<Rightarrow> py_error + string" where
  "quote (JStr s) = Inr (quote_from_bytes s)"
| "quote _ = Inl TypeError"

text \<open>
  The reading of a percent-encoded segment, as the receiving side does it
  (RFC 3986, section 2.1): \<^verbatim>\<open>%XX\<close> stands for the byte with that hex value, any
  other character for itself. It is the reference the encoding is compared with.
\<close>

definition hex_value :: "char \<Rightarrow> nat" where
  "hex_value c =
     (if of_char c < (58::nat) then of_char c - 48
      else if of_char c < (71::nat) then of_char c - 55
      else of_char c - 87)"

fun percent_decode :: "string \<Rightarrow> string" where
  "percent_decode (c # a # b # rest) =
     (if c = CHR ''%'' then char_of (hex_value a * 16 + hex_value b) # percent_decode rest
      else c # percent_decode (a # b # rest))"
| "percent_decode (c # rest) = c # percent_decode rest"
| "percent_decode [] = []"

subsection \<open>base64.b64encode\<close>

definition b64_char :: "nat \<Rightarrow> char" where
  "b64_char d = ''ABCDEFGHIJKLMNOPQRSTUVWXYZabcdefghijklmnopqrstuvwxyz0123456789+/'' ! d"

fun b64encode :: "string \<Rightarrow> string" where
  "b64encode (a # b # c # rest) =
     (let x = of_char a; y = of_char b; z = of_char c in
      [b64_char (x div 4), b64_char ((x mod 4) * 16 + y div 16),
       b64_char ((y mod 16) * 4 + z div 64), b64_char (z mod 64)]) @ b64encode rest"
| "b64encode [a, b] =
     (let x = of_char a; y = of_char b in
      [b64_char (x div 4), b64_char ((x mod 4) * 16 + y div 16),
       b64_char ((y mod 16) * 4), CHR ''=''])"
| "b64encode [a] =
     (let x = of_char a in [b64_char (x div 4), b64_char ((x mod 4) * 16), CHR ''='', CHR ''=''])"
| "b64encode [] = []"

subsection \<open>The world outside the handler\<close>

record http_request =
  req_method :: string
  req_url :: string
  req_data :: "json option"
  req_headers :: "(string \<times> string) list"

text \<open>
  What \<^verbatim>\<open>urllib.request.urlopen\<close> does with one request: it returns a response
  (status, body), raises \<^verbatim>\<open>HTTPError\<close> (code, body not yet read), raises
  \<^verbatim>\<open>URLError\<close>, or raises \<^verbatim>\<open>TimeoutError\<close> after 15 seconds.
\<close>

datatype transport_outcome =
    Response int string
  | RaisesHTTPError int string
  | RaisesURLError
  | RaisesTimeoutError

text \<open>
  The runtime: the process environment's \<^verbatim>\<open>AWS_REGION\<close>, \<^verbatim>\<open>json.loads\<close>
  on a str (\<open>None\<close> is JSONDecodeError), \<^verbatim>\<open>str()\<close> of a value that is not a
  str, the secret store (region, secret id) and the transport, whose answer may depend on
  the requests it has already served.
\<close>

record runtime =
  environ_AWS_REGION :: "string option"
  json_loads :: "string \<Rightarrow> json option"
  str_of :: "json \<Rightarrow> string"
  get_secret_value :: "json \<Rightarrow> json \<Rightarrow> py_error + json"
  urlopen :: "http_request list \<Rightarrow> http_request \<Rightarrow> transport_outcome"

text \<open>The external calls made so far, oldest first.\<close>

record world =
  secret_reads :: "(json \<times> json) list"
  sent :: "http_request list"

definition world0 :: world where
  "world0 = \<lparr>secret_reads = [], sent = []\<rparr>"

text \<open>A value inside an f-string.\<close>

definition fmt :: "runtime \<Rightarrow> json \<Rightarrow> string" where
  "fmt rt v = (case v of JStr s \<Rightarrow> s | _ \<Rightarrow> str_of rt v)"

text \<open>\<^verbatim>\<open>json.loads(v)\<close>: TypeError unless \<open>v\<close> is a str.\<close>

definition loads :: "runtime \<Rightarrow> json \<Rightarrow> py_error + json" where
  "loads rt v =
     (case v of
        JStr s \<Rightarrow> (case json_loads rt s of None \<Rightarrow> Inl JSONDecodeError | Some j \<Rightarrow> Inr j)
      | _ \<Rightarrow> Inl TypeError)"

subsection \<open>The inner function \<^verbatim>\<open>api\<close> (lines 63 to 81)\<close>

text \<open>The variables \<^verbatim>\<open>api\<close> closes over.\<close>

record client =
  cl_urlopen :: "http_request list \<Rightarrow> http_request \<Rightarrow> transport_outcome"
  base_url :: string
  auth :: string

definition mk_request :: "client \<Rightarrow> string \<Rightarrow> string \<Rightarrow> json option \<Rightarrow> http_request" where
  "mk_request cl method path body =
     \<lparr>req_method = method,
      req_url = base_url cl @ path,
      req_data = (case body of None \<Rightarrow> None | Some b \<Rightarrow> if truthy b then Some b else None),
      req_headers = [(''Content-Type'', ''application/json''),
                     (''Authorization'', ''Basic '' @ auth cl)]\<rparr>"

text \<open>
  One call of \<^verbatim>\<open>urlopen\<close>. A response is returned with whatever status it has.
  Of an \<^verbatim>\<open>HTTPError\<close> the body is read first (line 75), which leaves nothing to
  read in the exception object; with code 200, 201 or 204 that code is returned, and
  otherwise the same object is raised again (line 81): it holds the code and an empty
  body. Any other exception is not caught.
\<close>

definition api ::
  "client \<Rightarrow> http_request list \<Rightarrow> string \<Rightarrow> string \<Rightarrow> json option
     \<Rightarrow> (py_error + int) \<times> http_request list" where
  "api cl h method path body =
     (let req = mk_request cl method path body in
      (case cl_urlopen cl h req of
         Response status resp_body \<Rightarrow> Inr status
       | RaisesHTTPError code body_text \<Rightarrow>
           if code = 200 \<or> code = 201 \<or> code = 204 then Inr code
           else Inl (HTTPError code [])
       | RaisesURLError \<Rightarrow> Inl URLError
       | RaisesTimeoutError \<Rightarrow> Inl TimeoutError,
       h @ [req]))"

subsection \<open>The four loops (lines 84 to 131)\<close>

definition vhost :: string where
  "vhost = ''%2F''"

text \<open>
  The arguments of the \<^verbatim>\<open>api\<close> call of one loop body (method, path, body), or the
  exception the body raises before it calls: TypeError when the entity is not a dict or a
  name is not a str, KeyError when a subscripted key is absent. The steps are in the
  order the source evaluates them.
\<close>

type_synonym call = "string \<times> string \<times> json"

fun exchange_call :: "json \<Rightarrow> py_error + call" where
  "exchange_call (JObj ex) =
     (case getitem ex ''name'' of Inl e \<Rightarrow> Inl e | Inr name \<Rightarrow>
      (case quote name of Inl e \<Rightarrow> Inl e | Inr name_enc \<Rightarrow>
         Inr (''PUT'', ''/exchanges/'' @ vhost @ ''/'' @ name_enc,
              JObj [(''type'', get_or ex ''type'' (JStr ''direct'')),
                    (''durable'', get_or ex ''durable'' (JBool True)),
                    (''auto_delete'', get_or ex ''auto_delete'' (JBool False)),
                    (''arguments'', get_or ex ''arguments'' (JObj []))])))"
| "exchange_call _ = Inl TypeError"

fun queue_call :: "json \<Rightarrow> py_error + call" where
  "queue_call (JObj q) =
     (case getitem q ''name'' of Inl e \<Rightarrow> Inl e | Inr name \<Rightarrow>
      (case quote name of Inl e \<Rightarrow> Inl e | Inr name_enc \<Rightarrow>
         Inr (''PUT'', ''/queues/'' @ vhost @ ''/'' @ name_enc,
              JObj [(''durable'', get_or q ''durable'' (JBool True)),
                    (''auto_delete'', get_or q ''auto_delete'' (JBool False)),
                    (''arguments'', get_or q ''arguments'' (JObj []))])))"
| "queue_call _ = Inl TypeError"

fun binding_call :: "json \<Rightarrow> py_error + call" where
  "binding_call (JObj b) =
     (case getitem b ''source'' of Inl e \<Rightarrow> Inl e | Inr source \<Rightarrow>
      (case quote source of Inl e \<Rightarrow> Inl e | Inr src \<Rightarrow>
       (case getitem b ''destination'' of Inl e \<Rightarrow> Inl e | Inr destination \<Rightarrow>
        (case quote destination of Inl e \<Rightarrow> Inl e | Inr dst \<Rightarrow>
           Inr (''POST'', ''/bindings/'' @ vhost @ ''/e/'' @ src @ ''/q/'' @ dst,
                JObj [(''routing_key'', get_or b ''routing_key'' (JStr '''')),
                      (''arguments'', get_or b ''arguments'' (JObj []))])))))"
| "binding_call _ = Inl TypeError"

fun policy_call :: "json \<Rightarrow> py_error + call" where
  "policy_call (JObj p) =
     (case getitem p ''name'' of Inl e \<Rightarrow> Inl e | Inr name \<Rightarrow>
      (case quote name of Inl e \<Rightarrow> Inl e | Inr name_enc \<Rightarrow>
       (case getitem p ''pattern'' of Inl e \<Rightarrow> Inl e | Inr pattern \<Rightarrow>
        (case getitem p ''definition'' of Inl e \<Rightarrow> Inl e | Inr definition' \<Rightarrow>
           Inr (''PUT'', ''/policies/'' @ vhost @ ''/'' @ name_enc,
                JObj [(''pattern'', pattern),
                      (''definition'', definition'),
                      (''apply-to'', get_or p ''apply_to'' (JStr ''queues'')),
                      (''priority'', get_or p ''priority'' (JInt 0))])))))"
| "policy_call _ = Inl TypeError"

text \<open>
  One \<^verbatim>\<open>for\<close> loop: for each entity, build the call, make it, add one to the
  kind's counter \<open>n\<close>. The first exception ends the loop (and the handler); the requests
  already sent stay sent.
\<close>

fun for_each ::
  "client \<Rightarrow> (json \<Rightarrow> py_error + call) \<Rightarrow> json list \<Rightarrow> http_request list \<Rightarrow> nat
     \<Rightarrow> (py_error + nat) \<times> http_request list" where
  "for_each cl mk [] h n = (Inr n, h)"
| "for_each cl mk (x # xs) h n =
     (case mk x of
        Inl e \<Rightarrow> (Inl e, h)
      | Inr (method, path, body) \<Rightarrow>
          (case api cl h method path (Some body) of
             (Inl e, h') \<Rightarrow> (Inl e, h')
           | (Inr status, h') \<Rightarrow> for_each cl mk xs h' (n + 1)))"

text \<open>\<^verbatim>\<open>topology.get(kind, [])\<close>, iterated: AttributeError unless the document is a dict.\<close>

definition collection :: "json \<Rightarrow> string \<Rightarrow> py_error + json list" where
  "collection topology kind =
     (case topology of JObj d \<Rightarrow> py_iter (get_or d kind (JArr [])) | _ \<Rightarrow> Inl AttributeError)"

record counts =
  exchanges :: nat
  queues :: nat
  bindings :: nat
  policies :: nat

definition provision ::
  "client \<Rightarrow> json \<Rightarrow> http_request list \<Rightarrow> (py_error + counts) \<times> http_request list" where
  "provision cl topology h =
     (case collection topology ''exchanges'' of Inl e \<Rightarrow> (Inl e, h) | Inr exs \<Rightarrow>
      (case for_each cl exchange_call exs h 0 of (Inl e, h1) \<Rightarrow> (Inl e, h1) | (Inr n1, h1) \<Rightarrow>
       (case collection topology ''queues'' of Inl e \<Rightarrow> (Inl e, h1) | Inr qs \<Rightarrow>
        (case for_each cl queue_call qs h1 0 of (Inl e, h2) \<Rightarrow> (Inl e, h2) | (Inr n2, h2) \<Rightarrow>
         (case collection topology ''bindings'' of Inl e \<Rightarrow> (Inl e, h2) | Inr bs \<Rightarrow>
          (case for_each cl binding_call bs h2 0 of (Inl e, h3) \<Rightarrow> (Inl e, h3) | (Inr n3, h3) \<Rightarrow>
           (case collection topology ''policies'' of Inl e \<Rightarrow> (Inl e, h3) | Inr ps \<Rightarrow>
            (case for_each cl policy_call ps h3 0 of (Inl e, h4) \<Rightarrow> (Inl e, h4) | (Inr n4, h4) \<Rightarrow>
               (Inr \<lparr>exchanges = n1, queues = n2, bindings = n3, policies = n4\<rparr>, h4)))))))))"

subsection \<open>The handler \<^verbatim>\<open>on_event\<close>\<close>

definition physical_id :: string where
  "physical_id = ''rabbitmq-topology-v1''"

text \<open>
  Lines 49 to 55: each credential is the lower-case key's value when that is true, the
  capitalised key's value otherwise; ValueError when either result is not true.
\<close>

definition credentials :: "(string \<times> json) list \<Rightarrow> py_error + json \<times> json" where
  "credentials secret_value =
     (let username = py_or (get_or secret_value ''username'' JNull)
                           (get_or secret_value ''Username'' JNull);
          password = py_or (get_or secret_value ''password'' JNull)
                           (get_or secret_value ''Password'' JNull)
      in if \<not> truthy username \<or> \<not> truthy password then Inl ValueError
         else Inr (username, password))"

text \<open>
  Lines 45 to 55: the secret is fetched, its \<^verbatim>\<open>SecretString\<close> parsed, and the
  credentials taken from the parsed dict.
\<close>

definition read_secret :: "runtime \<Rightarrow> json \<Rightarrow> json \<Rightarrow> py_error + json \<times> json" where
  "read_secret rt region secret_arn =
     (case get_secret_value rt region secret_arn of Inl e \<Rightarrow> Inl e | Inr response \<Rightarrow>
      (case response of
         JObj r \<Rightarrow>
           (case getitem r ''SecretString'' of Inl e \<Rightarrow> Inl e | Inr secret_string \<Rightarrow>
            (case loads rt secret_string of Inl e \<Rightarrow> Inl e | Inr secret_json \<Rightarrow>
             (case secret_json of
                JObj secret_value \<Rightarrow> credentials secret_value
              | _ \<Rightarrow> Inl AttributeError)))
       | _ \<Rightarrow> Inl TypeError))"

text \<open>
  Lines 40 to 61: the properties are read, the topology text is parsed, the secret is
  read, and the client is set up. The result is the client and the parsed topology.
\<close>

definition connect ::
  "runtime \<Rightarrow> (string \<times> json) list \<Rightarrow> world \<Rightarrow> (py_error + client \<times> json) \<times> world" where
  "connect rt props w =
     (let region = get_or props ''Region''
                     (JStr (case environ_AWS_REGION rt of None \<Rightarrow> ''us-east-2'' | Some r \<Rightarrow> r)) in
      (case getitem props ''SecretArn'' of Inl e \<Rightarrow> (Inl e, w) | Inr secret_arn \<Rightarrow>
       (case getitem props ''BrokerHost'' of Inl e \<Rightarrow> (Inl e, w) | Inr broker_host \<Rightarrow>
        (case getitem props ''Topology'' of Inl e \<Rightarrow> (Inl e, w) | Inr topology_text \<Rightarrow>
         (case loads rt topology_text of Inl e \<Rightarrow> (Inl e, w) | Inr topology \<Rightarrow>
          (let w1 = w\<lparr>secret_reads := secret_reads w @ [(region, secret_arn)]\<rparr> in
           (case read_secret rt region secret_arn of Inl e \<Rightarrow> (Inl e, w1)
            | Inr (username, password) \<Rightarrow>
                (Inr (\<lparr>cl_urlopen = urlopen rt,
                       base_url = ''https://'' @ fmt rt broker_host @ ''/api'',
                       auth = b64encode (fmt rt username @ '':'' @ fmt rt password)\<rparr>,
                      topology), w1))))))))"

text \<open>The returned dict; the counts are turned into text.\<close>

definition result_of :: "counts \<Rightarrow> json" where
  "result_of c =
     JObj [(''PhysicalResourceId'', JStr physical_id),
           (''Data'', JObj [(''exchanges'', JStr (str_nat (exchanges c))),
                            (''queues'', JStr (str_nat (queues c))),
                            (''bindings'', JStr (str_nat (bindings c))),
                            (''policies'', JStr (str_nat (policies c)))])]"

definition is_dict :: "json \<Rightarrow> bool" where
  "is_dict v = (case v of JObj d \<Rightarrow> True | _ \<Rightarrow> False)"

text \<open>
  The event is a dict. Line 28 subscripts \<^verbatim>\<open>RequestType\<close>, line 29 calls
  \<^verbatim>\<open>.keys()\<close> on the properties when the event has them (AttributeError when they
  are not a dict), line 32 subscripts \<^verbatim>\<open>ResourceProperties\<close>; then a Delete
  returns, and anything else provisions.
\<close>

definition on_event :: "runtime \<Rightarrow> (string \<times> json) list \<Rightarrow> world \<Rightarrow> (py_error + json) \<times> world" where
  "on_event rt event w =
     (case getitem event ''RequestType'' of Inl e \<Rightarrow> (Inl e, w) | Inr request_type \<Rightarrow>
      (if \<not> is_dict (get_or event ''ResourceProperties'' (JObj [])) then (Inl AttributeError, w)
       else
        (case getitem event ''ResourceProperties'' of Inl e \<Rightarrow> (Inl e, w) | Inr props_v \<Rightarrow>
         (case props_v of
            JObj props \<Rightarrow>
              (if request_type = JStr ''Delete'' then
                 (Inr (JObj [(''PhysicalResourceId'', JStr physical_id)]), w)
               else
                 (case connect rt props w of
                    (Inl e, w1) \<Rightarrow> (Inl e, w1)
                  | (Inr (cl, topology), w1) \<Rightarrow>
                      (case provision cl topology (sent w1) of
                         (Inl e, h) \<Rightarrow> (Inl e, w1\<lparr>sent := h\<rparr>)
                       | (Inr c, h) \<Rightarrow> (Inr (result_of c), w1\<lparr>sent := h\<rparr>))))
          | _ \<Rightarrow> (Inl AttributeError, w)))))"

subsection \<open>Notions the statements below are written in\<close>

text \<open>The request \<^verbatim>\<open>api\<close> builds for a call, and \<^verbatim>\<open>api\<close> applied to it.\<close>

definition request_of :: "client \<Rightarrow> call \<Rightarrow> http_request" where
  "request_of cl c = (case c of (method, path, body) \<Rightarrow> mk_request cl method path (Some body))"

definition api_call ::
  "client \<Rightarrow> http_request list \<Rightarrow> call \<Rightarrow> (py_error + int) \<times> http_request list" where
  "api_call cl h c = (case c of (method, path, body) \<Rightarrow> api cl h method path (Some body))"

text \<open>
  The loops read as one sequence of steps: a step is either a call to make or the
  exception raised where the call would have been built. Running the steps stops at the
  first exception, raised by a step or by \<^verbatim>\<open>api\<close>. Lemma \<open>provision_run_steps\<close>
  shows that \<open>provision\<close> is this run over \<open>steps\<close>.
\<close>

fun run_steps ::
  "client \<Rightarrow> (py_error + call) list \<Rightarrow> http_request list
     \<Rightarrow> (py_error + unit) \<times> http_request list" where
  "run_steps cl [] h = (Inr (), h)"
| "run_steps cl (Inl e # ss) h = (Inl e, h)"
| "run_steps cl (Inr c # ss) h =
     (case api_call cl h c of (Inl e, h') \<Rightarrow> (Inl e, h') | (Inr status, h') \<Rightarrow> run_steps cl ss h')"

definition kind_steps ::
  "json \<Rightarrow> string \<Rightarrow> (json \<Rightarrow> py_error + call) \<Rightarrow> (py_error + call) list" where
  "kind_steps topology kind mk =
     (case collection topology kind of Inl e \<Rightarrow> [Inl e] | Inr xs \<Rightarrow> map mk xs)"

definition steps :: "json \<Rightarrow> (py_error + call) list" where
  "steps topology =
     kind_steps topology ''exchanges'' exchange_call @ kind_steps topology ''queues'' queue_call @
     kind_steps topology ''bindings'' binding_call @ kind_steps topology ''policies'' policy_call"

definition kind_count :: "json \<Rightarrow> string \<Rightarrow> nat" where
  "kind_count topology kind = (case collection topology kind of Inl e \<Rightarrow> 0 | Inr xs \<Rightarrow> length xs)"

text \<open>
  A call is accepted when \<^verbatim>\<open>api\<close> returns a status for it; a list of calls is
  accepted when each is, made one after the other.
\<close>

definition accepted :: "client \<Rightarrow> http_request list \<Rightarrow> call \<Rightarrow> bool" where
  "accepted cl h c = (case fst (api_call cl h c) of Inl e \<Rightarrow> False | Inr status \<Rightarrow> True)"

fun all_accepted :: "client \<Rightarrow> http_request list \<Rightarrow> call list \<Rightarrow> bool" where
  "all_accepted cl h [] = True"
| "all_accepted cl h (c # cs) = (accepted cl h c \<and> all_accepted cl (h @ [request_of cl c]) cs)"

subsection \<open>Example inputs\<close>

text \<open>The document of the scenario in the specification, and the same with a policy.\<close>

definition orders_exchange :: json where
  "orders_exchange = JObj [(''name'', JStr ''orders.ex''), (''type'', JStr ''topic'')]"

definition orders_queue :: json where
  "orders_queue = JObj [(''name'', JStr ''orders.q'')]"

definition orders_binding :: json where
  "orders_binding =
     JObj [(''source'', JStr ''orders.ex''), (''destination'', JStr ''orders.q''),
           (''routing_key'', JStr ''order.*'')]"

definition orders_policy :: json where
  "orders_policy =
     JObj [(''name'', JStr ''ttl''), (''pattern'', JStr ''^orders''),
           (''definition'', JObj [(''message-ttl'', JInt 60000)])]"

definition orders_topology :: json where
  "orders_topology =
     JObj [(''exchanges'', JArr [orders_exchange]), (''queues'', JArr [orders_queue]),
           (''bindings'', JArr [orders_binding])]"

definition orders_topology_with_policy :: json where
  "orders_topology_with_policy =
     JObj [(''exchanges'', JArr [orders_exchange]), (''queues'', JArr [orders_queue]),
           (''bindings'', JArr [orders_binding]), (''policies'', JArr [orders_policy])]"

text \<open>A document with the same queue twice, and one whose second queue has no name.\<close>

definition twice_topology :: json where
  "twice_topology = JObj [(''queues'', JArr [orders_queue, orders_queue])]"

definition nameless_topology :: json where
  "nameless_topology =
     JObj [(''exchanges'', JArr [orders_exchange]),
           (''queues'', JArr [orders_queue, JObj [(''durable'', JBool True)]]),
           (''bindings'', JArr [orders_binding])]"

text \<open>
  A runtime around a given transport. Its \<^verbatim>\<open>json.loads\<close> knows the texts named
  here and rejects every other text; the secret has capitalised keys.
\<close>

definition example_runtime ::
  "(http_request list \<Rightarrow> http_request \<Rightarrow> transport_outcome) \<Rightarrow> runtime" where
  "example_runtime transport =
     \<lparr>environ_AWS_REGION = None,
      json_loads = map_of [(''orders'', orders_topology),
                           (''policy'', orders_topology_with_policy),
                           (''twice'', twice_topology),
                           (''nameless'', nameless_topology),
                           (''secret'', JObj [(''Username'', JStr ''u''), (''Password'', JStr ''p'')])],
      str_of = (\<lambda>v. []),
      get_secret_value = (\<lambda>region secret_id. Inr (JObj [(''SecretString'', JStr ''secret'')])),
      urlopen = transport\<rparr>"

definition example_props :: "string \<Rightarrow> (string \<times> json) list" where
  "example_props text =
     [(''SecretArn'', JStr ''arn''), (''BrokerHost'', JStr ''mq.test''), (''Topology'', JStr text)]"

definition example_event :: "string \<Rightarrow> string \<Rightarrow> (string \<times> json) list" where
  "example_event request_type text =
     [(''RequestType'', JStr request_type), (''ResourceProperties'', JObj (example_props text))]"

definition example_client ::
  "(http_request list \<Rightarrow> http_request \<Rightarrow> transport_outcome) \<Rightarrow> client" where
  "example_client transport = \<lparr>cl_urlopen = transport, base_url = ''https://mq.test/api'', auth = ''dTpw''\<rparr>"

text \<open>
  Transports: one that answers every request with 204 through the error channel, and one
  that answers 409 on a given URL and 204 otherwise.
\<close>

definition no_content :: "http_request list \<Rightarrow> http_request \<Rightarrow> transport_outcome" where
  "no_content h req = RaisesHTTPError 204 []"

definition conflict_on :: "string \<Rightarrow> http_request list \<Rightarrow> http_request \<Rightarrow> transport_outcome" where
  "conflict_on url h req = (if req_url req = url then RaisesHTTPError 409 ''conflict'' else Response 204 [])"

text \<open>A runtime in which nothing outside the handler works.\<close>

definition bare_runtime :: runtime where
  "bare_runtime =
     \<lparr>environ_AWS_REGION = None, json_loads = (\<lambda>text. None), str_of = (\<lambda>v. []),
      get_secret_value = (\<lambda>region secret_id. Inl ClientError),
      urlopen = (\<lambda>h req. RaisesURLError)\<rparr>"

text \<open>The calls the orders document and its policy give.\<close>

definition orders_exchange_call :: call where
  "orders_exchange_call =
     (''PUT'', ''/exchanges/%2F/orders.ex'',
      JObj [(''type'', JStr ''topic''), (''durable'', JBool True),
            (''auto_delete'', JBool False), (''arguments'', JObj [])])"

definition orders_queue_call :: call where
  "orders_queue_call =
     (''PUT'', ''/queues/%2F/orders.q'',
      JObj [(''durable'', JBool True), (''auto_delete'', JBool False), (''arguments'', JObj [])])"

definition orders_binding_call :: call where
  "orders_binding_call =
     (''POST'', ''/bindings/%2F/e/orders.ex/q/orders.q'',
      JObj [(''routing_key'', JStr ''order.*''), (''arguments'', JObj [])])"

definition orders_policy_call :: call where
  "orders_policy_call =
     (''PUT'', ''/policies/%2F/ttl'',
      JObj [(''pattern'', JStr ''^orders''), (''definition'', JObj [(''message-ttl'', JInt 60000)]),
            (''apply-to'', JStr ''queues''), (''priority'', JInt 0)])"

text \<open>A name with a slash, a space and a character outside ASCII (U+00E9, two bytes).\<close>

definition odd_name :: string where
  "odd_name = ''a/b c'' @ [CHR 0xC3, CHR 0xA9]"

section \<open>Lemmas\<close>

subsection \<open>The loops as a run over steps\<close>

lemma api_call_sent: "snd (api_call cl h c) = h @ [request_of cl c]"
  by (cases c) (simp add: api_call_def request_of_def api_def Let_def)

lemma api_call_cases:
  obtains (fails) e where "api_call cl h c = (Inl e, h @ [request_of cl c])" "\<not> accepted cl h c"
  | (succeeds) status where "api_call cl h c = (Inr status, h @ [request_of cl c])" "accepted cl h c"
proof (cases "fst (api_call cl h c)")
  case (Inl e)
  then have "api_call cl h c = (Inl e, h @ [request_of cl c])"
    using api_call_sent [of cl h c] by (cases "api_call cl h c") simp
  then show ?thesis using fails by (simp add: accepted_def)
next
  case (Inr status)
  then have "api_call cl h c = (Inr status, h @ [request_of cl c])"
    using api_call_sent [of cl h c] by (cases "api_call cl h c") simp
  then show ?thesis using succeeds by (simp add: accepted_def)
qed

lemma for_each_run_steps:
  "for_each cl mk xs h n =
     (case run_steps cl (map mk xs) h of
        (Inl e, h') \<Rightarrow> (Inl e, h')
      | (Inr u, h') \<Rightarrow> (Inr (n + length xs), h'))"
proof (induction xs arbitrary: h n)
  case Nil
  show ?case by simp
next
  case (Cons x xs)
  show ?case
  proof (cases "mk x")
    case (Inl e)
    then show ?thesis by simp
  next
    case (Inr c)
    obtain m p b where c: "c = (m, p, b)" by (cases c)
    show ?thesis
      using Inr c Cons.IH by (simp add: api_call_def split: prod.splits sum.splits)
  qed
qed

lemma run_steps_append:
  "run_steps cl (ss @ ts) h =
     (case run_steps cl ss h of (Inl e, h') \<Rightarrow> (Inl e, h') | (Inr u, h') \<Rightarrow> run_steps cl ts h')"
proof (induction ss arbitrary: h)
  case Nil
  show ?case by simp
next
  case (Cons s ss)
  show ?case
  proof (cases s)
    case (Inl e)
    then show ?thesis by simp
  next
    case (Inr c)
    then show ?thesis using Cons.IH by (simp split: prod.splits sum.splits)
  qed
qed

lemma provision_run_steps:
  "provision cl topology h =
     (case run_steps cl (steps topology) h of
        (Inl e, h') \<Rightarrow> (Inl e, h')
      | (Inr u, h') \<Rightarrow>
          (Inr \<lparr>exchanges = kind_count topology ''exchanges'', queues = kind_count topology ''queues'',
                bindings = kind_count topology ''bindings'', policies = kind_count topology ''policies''\<rparr>, h'))"
  by (simp add: provision_def steps_def run_steps_append kind_steps_def kind_count_def for_each_run_steps
        split: sum.splits prod.splits)

lemma run_steps_accepted:
  "all_accepted cl h cs \<Longrightarrow> run_steps cl (map Inr cs) h = (Inr (), h @ map (request_of cl) cs)"
proof (induction cs arbitrary: h)
  case Nil
  show ?case by simp
next
  case (Cons c cs)
  from Cons.prems have a: "accepted cl h c" and rest: "all_accepted cl (h @ [request_of cl c]) cs"
    by simp_all
  show ?case
  proof (cases rule: api_call_cases [of cl h c])
    case (fails e)
    with a show ?thesis by simp
  next
    case (succeeds status)
    then show ?thesis using Cons.IH [OF rest] by simp
  qed
qed


lemma run_steps_call_fails:
  assumes "all_accepted cl h pre"
    and "fst (api_call cl (h @ map (request_of cl) pre) c) = Inl e"
  shows "run_steps cl (map Inr pre @ Inr c # rest) h =
           (Inl e, h @ map (request_of cl) pre @ [request_of cl c])"
proof -
  have "api_call cl (h @ map (request_of cl) pre) c =
          (Inl e, (h @ map (request_of cl) pre) @ [request_of cl c])"
    using assms(2) api_call_sent [of cl "h @ map (request_of cl) pre" c]
    by (cases "api_call cl (h @ map (request_of cl) pre) c") simp
  then show ?thesis
    by (simp add: run_steps_append run_steps_accepted [OF assms(1)])
qed

lemma run_steps_build_fails:
  assumes "all_accepted cl h pre"
  shows "run_steps cl (map Inr pre @ Inl e # rest) h = (Inl e, h @ map (request_of cl) pre)"
  by (simp add: run_steps_append run_steps_accepted [OF assms])

lemma steps_well_formed:
  assumes "collection topology ''exchanges'' = Inr exs" "map exchange_call exs = map Inr c1"
    and "collection topology ''queues'' = Inr qs" "map queue_call qs = map Inr c2"
    and "collection topology ''bindings'' = Inr bs" "map binding_call bs = map Inr c3"
    and "collection topology ''policies'' = Inr ps" "map policy_call ps = map Inr c4"
  shows "steps topology = map Inr (c1 @ c2 @ c3 @ c4)"
  using assms by (simp add: steps_def kind_steps_def)

subsection \<open>The handler around the loops\<close>

lemma connect_sent: "connect rt props w = (r, w1) \<Longrightarrow> sent w1 = sent w"
  by (auto simp: connect_def Let_def split: sum.splits prod.splits)

lemma on_event_provision:
  assumes "getitem event ''RequestType'' = Inr rq" and "rq \<noteq> JStr ''Delete''"
    and "getitem event ''ResourceProperties'' = Inr (JObj props)"
    and "connect rt props w = (Inr (cl, topology), w1)"
  shows "on_event rt event w =
           (case provision cl topology (sent w) of
              (Inl e, h) \<Rightarrow> (Inl e, w1\<lparr>sent := h\<rparr>)
            | (Inr c, h) \<Rightarrow> (Inr (result_of c), w1\<lparr>sent := h\<rparr>))"
proof -
  have "get_or event ''ResourceProperties'' (JObj []) = JObj props"
    using assms(3) by (simp add: getitem_def get_or_def split: option.splits)
  then show ?thesis
    using assms connect_sent [OF assms(4)] by (simp add: on_event_def is_dict_def)
qed

lemma on_event_delete:
  assumes "getitem event ''RequestType'' = Inr (JStr ''Delete'')"
    and "getitem event ''ResourceProperties'' = Inr (JObj props)"
  shows "on_event rt event w = (Inr (JObj [(''PhysicalResourceId'', JStr physical_id)]), w)"
proof -
  have "get_or event ''ResourceProperties'' (JObj []) = JObj props"
    using assms(2) by (simp add: getitem_def get_or_def split: option.splits)
  then show ?thesis
    using assms by (simp add: on_event_def is_dict_def)
qed

lemma on_event_result:
  assumes "on_event rt event w = (Inr res, w')"
  shows "\<exists>fields. res = JObj fields \<and> map_of fields ''PhysicalResourceId'' = Some (JStr physical_id)"
  using assms
  by (auto simp: on_event_def result_of_def split: sum.splits prod.splits json.splits if_splits)

subsection \<open>Percent-encoding\<close>

lemma nat_less_16_cases:
  "d < (16::nat) \<Longrightarrow> d \<in> {0, 1, 2, 3, 4, 5, 6, 7, 8, 9, 10, 11, 12, 13, 14, 15}"
  by simp arith

lemma hex_value_hex_digit: "d < 16 \<Longrightarrow> hex_value (hex_digit d) = d"
  by (drule nat_less_16_cases) (auto simp: hex_value_def hex_digit_def)

lemma hex_digit_safe: "d < 16 \<Longrightarrow> always_safe (hex_digit d)"
  by (drule nat_less_16_cases) (auto simp: always_safe_def hex_digit_def)

lemma always_safe_ascii:
  "always_safe c \<Longrightarrow> c \<noteq> CHR ''%'' \<and> c \<noteq> CHR ''/'' \<and> c \<noteq> CHR '' '' \<and> of_char c < (128::nat)"
  by (auto simp: always_safe_def)

lemma percent_decode_plain: "c \<noteq> CHR ''%'' \<Longrightarrow> percent_decode (c # xs) = c # percent_decode xs"
  by (cases xs rule: percent_decode.cases) simp_all

lemma percent_decode_quote_byte: "percent_decode (quote_byte c @ xs) = c # percent_decode xs"
proof (cases "always_safe c")
  case True
  then have "c \<noteq> CHR ''%''" using always_safe_ascii by blast
  then show ?thesis using True by (simp add: quote_byte_def percent_decode_plain)
next
  case False
  have hi: "(of_char c :: nat) div 16 < 16" and lo: "(of_char c :: nat) mod 16 < 16"
    using nat_of_char_less_256 [of c] by arith+
  have "char_of ((of_char c :: nat) div 16 * 16 + of_char c mod 16) = c"
    by (simp add: div_mult_mod_eq)
  then show ?thesis
    using False by (simp add: quote_byte_def hex_value_hex_digit [OF hi] hex_value_hex_digit [OF lo])
qed

lemma percent_decode_quote: "percent_decode (quote_from_bytes s) = s"
  by (induction s) (simp_all add: quote_from_bytes_def percent_decode_quote_byte)

lemma quote_chars: "c \<in> set (quote_from_bytes s) \<Longrightarrow> always_safe c \<or> c = CHR ''%''"
proof -
  have "c \<in> set (quote_byte b) \<Longrightarrow> always_safe c \<or> c = CHR ''%''" for b
  proof -
    assume c: "c \<in> set (quote_byte b)"
    have hi: "(of_char b :: nat) div 16 < 16" and lo: "(of_char b :: nat) mod 16 < 16"
      using nat_of_char_less_256 [of b] by arith+
    show ?thesis
      using c hex_digit_safe [OF hi] hex_digit_safe [OF lo]
      by (auto simp: quote_byte_def split: if_splits)
  qed
  then show "c \<in> set (quote_from_bytes s) \<Longrightarrow> always_safe c \<or> c = CHR ''%''"
    by (auto simp: quote_from_bytes_def)
qed

subsection \<open>Unfolding the handler on a concrete input\<close>

lemmas handler_defs =
  on_event_def connect_def read_secret_def credentials_def provision_def collection_def
  api_def mk_request_def loads_def fmt_def result_of_def is_dict_def getitem_def get_or_def
  py_or_def vhost_def physical_id_def quote_from_bytes_def quote_byte_def always_safe_def
  hex_digit_def b64_char_def digit_char_def str_nat.simps world0_def Let_def

lemmas example_defs =
  example_runtime_def example_props_def example_event_def example_client_def
  orders_topology_def orders_topology_with_policy_def twice_topology_def nameless_topology_def
  orders_exchange_def orders_queue_def orders_binding_def orders_policy_def
  no_content_def conflict_on_def

section \<open>The Management API client\<close>

text \<open>
  Claim C1, as the code has it. \<^verbatim>\<open>api\<close> returns the status exactly when the
  transport returned a response (of any status), or raised \<^verbatim>\<open>HTTPError\<close> with
  code 200, 201 or 204. It fails with an \<^verbatim>\<open>HTTPError\<close> exactly when the
  transport raised one with any other code, and the error then holds that code and no
  body text: the body has been read from it before it is raised again. Each call of
  \<^verbatim>\<open>api\<close> makes one request, so nothing is retried.
\<close>

theorem api_status:
  "(fst (api cl h method path body) = Inr status \<longleftrightarrow>
      (\<exists>text. cl_urlopen cl h (mk_request cl method path body) = Response status text) \<or>
      (\<exists>text. cl_urlopen cl h (mk_request cl method path body) = RaisesHTTPError status text \<and>
              (status = 200 \<or> status = 201 \<or> status = 204))) \<and>
   (fst (api cl h method path body) = Inl (HTTPError code body_text) \<longleftrightarrow>
      (\<exists>text. cl_urlopen cl h (mk_request cl method path body) = RaisesHTTPError code text) \<and>
      body_text = [] \<and> code \<noteq> 200 \<and> code \<noteq> 201 \<and> code \<noteq> 204) \<and>
   snd (api cl h method path body) = h @ [mk_request cl method path body]"
  by (cases "cl_urlopen cl h (mk_request cl method path body)") (auto simp: api_def Let_def)

text \<open>
  At a 204 raised as an error the call succeeds, at a 409 with the body text
  \<open>conflict\<close> it fails with the code and an empty body, and one request has been made.
\<close>

theorem api_status_witness:
  "fst (api (example_client no_content) [] ''PUT'' ''/queues/%2F/orders.q'' (Some (JObj [(''durable'', JBool True)])))
     = Inr 204 \<and>
   fst (api (example_client (conflict_on ''https://mq.test/api/queues/%2F/orders.q'')) [] ''PUT''
          ''/queues/%2F/orders.q'' (Some (JObj [(''durable'', JBool True)])))
     = Inl (HTTPError 409 []) \<and>
   length (snd (api (example_client no_content) [] ''PUT'' ''/queues/%2F/orders.q''
          (Some (JObj [(''durable'', JBool True)])))) = 1"
  using api_status [of "example_client no_content" "[]" "''PUT''" "''/queues/%2F/orders.q''"
          "Some (JObj [(''durable'', JBool True)])" 204 0 "[]"]
    api_status [of "example_client (conflict_on ''https://mq.test/api/queues/%2F/orders.q'')" "[]" "''PUT''"
          "''/queues/%2F/orders.q''" "Some (JObj [(''durable'', JBool True)])" 0 409 "[]"]
  by (simp add: example_client_def no_content_def conflict_on_def mk_request_def)

text \<open>
  Claim C1 as stated fails: a response with status 202, returned by the transport, is
  none of 200, 201 and 204, and \<^verbatim>\<open>api\<close> returns 202 instead of failing.
\<close>

theorem api_other_status_counterexample:
  "fst (api (example_client (\<lambda>h req. Response 202 ''Accepted'')) [] ''PUT'' ''/queues/%2F/orders.q''
          (Some (JObj [(''durable'', JBool True)]))) = Inr 202"
  by (simp add: api_def example_client_def)

section \<open>The Delete event\<close>

text \<open>The scenario of the specification, run: a Create on the orders document.\<close>

lemma example_create:
  "on_event (example_runtime no_content) (example_event ''Create'' ''orders'') world0 =
     (Inr (JObj [(''PhysicalResourceId'', JStr ''rabbitmq-topology-v1''),
                 (''Data'', JObj [(''exchanges'', JStr ''1''), (''queues'', JStr ''1''),
                                  (''bindings'', JStr ''1''), (''policies'', JStr ''0'')])]),
      \<lparr>secret_reads = [(JStr ''us-east-2'', JStr ''arn'')],
       sent = map (request_of (example_client no_content))
                [(''PUT'', ''/exchanges/%2F/orders.ex'',
                  JObj [(''type'', JStr ''topic''), (''durable'', JBool True),
                        (''auto_delete'', JBool False), (''arguments'', JObj [])]),
                 (''PUT'', ''/queues/%2F/orders.q'',
                  JObj [(''durable'', JBool True), (''auto_delete'', JBool False),
                        (''arguments'', JObj [])]),
                 (''POST'', ''/bindings/%2F/e/orders.ex/q/orders.q'',
                  JObj [(''routing_key'', JStr ''order.*''), (''arguments'', JObj [])])]\<rparr>)"
  by (simp add: handler_defs example_defs request_of_def)

text \<open>
  Claim C3. An event whose \<^verbatim>\<open>RequestType\<close> is Delete and which carries its
  \<^verbatim>\<open>ResourceProperties\<close> returns the dict with the one field
  \<^verbatim>\<open>PhysicalResourceId\<close> (no \<^verbatim>\<open>Data\<close>) and leaves the world as it was: no
  HTTP request and no read of the secret store. Every successful return of the handler,
  of whatever event, carries the same token.
\<close>

theorem delete_returns_identity:
  assumes "getitem event ''RequestType'' = Inr (JStr ''Delete'')"
    and "getitem event ''ResourceProperties'' = Inr (JObj props)"
    and "on_event rt' event' w0 = (Inr res', w')"
  shows "on_event rt event w = (Inr (JObj [(''PhysicalResourceId'', JStr physical_id)]), w) \<and>
         (\<exists>fields. res' = JObj fields \<and>
            map_of fields ''PhysicalResourceId'' = Some (JStr physical_id))"
  using on_event_delete [OF assms(1,2)] on_event_result [OF assms(3)] by simp

theorem delete_returns_identity_witness:
  "on_event (example_runtime no_content) (example_event ''Delete'' ''orders'') world0 =
     (Inr (JObj [(''PhysicalResourceId'', JStr ''rabbitmq-topology-v1'')]), world0) \<and>
   map_of [(''PhysicalResourceId'', JStr ''rabbitmq-topology-v1''),
           (''Data'', JObj [(''exchanges'', JStr ''1''), (''queues'', JStr ''1''),
                            (''bindings'', JStr ''1''), (''policies'', JStr ''0'')])]
     ''PhysicalResourceId'' = Some (JStr ''rabbitmq-topology-v1'')"
proof -
  have rq: "getitem (example_event ''Delete'' ''orders'') ''RequestType'' = Inr (JStr ''Delete'')"
    by (simp add: example_event_def getitem_def)
  have rp: "getitem (example_event ''Delete'' ''orders'') ''ResourceProperties'' =
              Inr (JObj (example_props ''orders''))"
    by (simp add: example_event_def getitem_def)
  show ?thesis
    using delete_returns_identity [OF rq rp example_create, of "example_runtime no_content" world0]
    by (simp add: physical_id_def)
qed

text \<open>
  Claim C10. Two Delete events that carry properties return the same, whatever the
  properties and the runtimes are: the handler succeeds, and neither the secret store nor
  the broker has been called. So nothing of the properties decides the outcome.
\<close>

theorem delete_ignores_properties:
  assumes "getitem event ''RequestType'' = Inr (JStr ''Delete'')"
    and "getitem event ''ResourceProperties'' = Inr (JObj props)"
    and "getitem event' ''RequestType'' = Inr (JStr ''Delete'')"
    and "getitem event' ''ResourceProperties'' = Inr (JObj props')"
  shows "on_event rt event w = on_event rt' event' w \<and>
         (\<exists>res. fst (on_event rt event w) = Inr res) \<and>
         secret_reads (snd (on_event rt event w)) = secret_reads w \<and>
         sent (snd (on_event rt event w)) = sent w"
  using on_event_delete [OF assms(1,2)] on_event_delete [OF assms(3,4)] by simp

text \<open>
  A Delete with no property at all, in a runtime where the secret store and the transport
  fail, returns what a Delete with an unparseable topology text returns; the same two
  inputs as a Create fail with KeyError and JSONDecodeError.
\<close>

theorem delete_ignores_properties_witness:
  "(on_event bare_runtime [(''RequestType'', JStr ''Delete''), (''ResourceProperties'', JObj [])] world0 =
      on_event (example_runtime no_content) (example_event ''Delete'' ''{'') world0 \<and>
    (\<exists>res. fst (on_event bare_runtime
                   [(''RequestType'', JStr ''Delete''), (''ResourceProperties'', JObj [])] world0) = Inr res) \<and>
    secret_reads (snd (on_event bare_runtime
                   [(''RequestType'', JStr ''Delete''), (''ResourceProperties'', JObj [])] world0)) =
      secret_reads world0 \<and>
    sent (snd (on_event bare_runtime
                   [(''RequestType'', JStr ''Delete''), (''ResourceProperties'', JObj [])] world0)) =
      sent world0) \<and>
   fst (on_event bare_runtime [(''RequestType'', JStr ''Create''), (''ResourceProperties'', JObj [])] world0) =
     Inl (KeyError ''SecretArn'') \<and>
   fst (on_event (example_runtime no_content) (example_event ''Create'' ''{'') world0) = Inl JSONDecodeError"
proof -
  have a: "getitem [(''RequestType'', JStr ''Delete''), (''ResourceProperties'', JObj [])] ''RequestType'' =
             Inr (JStr ''Delete'')"
    and b: "getitem [(''RequestType'', JStr ''Delete''), (''ResourceProperties'', JObj [])]
             ''ResourceProperties'' = Inr (JObj [])"
    and c: "getitem (example_event ''Delete'' ''{'') ''RequestType'' = Inr (JStr ''Delete'')"
    and d: "getitem (example_event ''Delete'' ''{'') ''ResourceProperties'' = Inr (JObj (example_props ''{''))"
    by (simp_all add: example_event_def getitem_def)
  have e: "fst (on_event bare_runtime [(''RequestType'', JStr ''Create''), (''ResourceProperties'', JObj [])]
                  world0) = Inl (KeyError ''SecretArn'')"
    by (simp add: handler_defs bare_runtime_def)
  have f: "fst (on_event (example_runtime no_content) (example_event ''Create'' ''{'') world0) =
             Inl JSONDecodeError"
    by (simp add: handler_defs example_defs)
  from delete_ignores_properties [OF a b c d, of bare_runtime world0 "example_runtime no_content"] e f
  show ?thesis by (intro conjI) blast+
qed

section \<open>Credentials\<close>

text \<open>
  Claim C9, as the code has it. The extraction fails (with ValueError) exactly when, for
  one of the two fields, neither the lower-case key nor the capitalised key has a true
  value; it succeeds exactly with, for each field, the lower-case key's value when that is
  true and the capitalised key's value otherwise. A payload with capitalised keys gives
  what the payload with lower-case keys gives, and so do the mixed ones.
\<close>

theorem credentials_truthy:
  "(credentials sv = Inl ValueError \<longleftrightarrow>
      (\<not> truthy (get_or sv ''username'' JNull) \<and> \<not> truthy (get_or sv ''Username'' JNull)) \<or>
      (\<not> truthy (get_or sv ''password'' JNull) \<and> \<not> truthy (get_or sv ''Password'' JNull))) \<and>
   (credentials sv = Inr (u, p) \<longleftrightarrow>
      truthy u \<and> truthy p \<and>
      u = py_or (get_or sv ''username'' JNull) (get_or sv ''Username'' JNull) \<and>
      p = py_or (get_or sv ''password'' JNull) (get_or sv ''Password'' JNull)) \<and>
   credentials [(''Username'', a), (''Password'', b)] = credentials [(''username'', a), (''password'', b)] \<and>
   credentials [(''Username'', a), (''password'', b)] = credentials [(''username'', a), (''Password'', b)]"
  by (auto simp: credentials_def py_or_def get_or_def Let_def)

theorem credentials_truthy_witness:
  "credentials [(''Username'', JStr ''u''), (''Password'', JStr ''p'')] = Inr (JStr ''u'', JStr ''p'') \<and>
   credentials [(''username'', JStr ''u''), (''password'', JStr ''p'')] = Inr (JStr ''u'', JStr ''p'') \<and>
   credentials [(''username'', JStr ''u'')] = Inl ValueError"
  using credentials_truthy [of "[(''Username'', JStr ''u''), (''Password'', JStr ''p'')]" "JStr ''u''" "JStr ''p''"
          "JStr ''u''" "JStr ''p''"]
    credentials_truthy [of "[(''username'', JStr ''u'')]" JNull JNull JNull JNull]
  by (auto simp: get_or_def py_or_def)

text \<open>
  Claim C9 as stated fails: in this payload both lower-case keys are present, and the
  extraction fails all the same, the user name being empty.
\<close>

theorem credentials_present_counterexample:
  "map_of [(''username'', JStr ''''), (''password'', JStr ''p'')] ''username'' = Some (JStr '''') \<and>
   map_of [(''username'', JStr ''''), (''password'', JStr ''p'')] ''password'' = Some (JStr ''p'') \<and>
   credentials [(''username'', JStr ''''), (''password'', JStr ''p'')] = Inl ValueError"
  by (simp add: credentials_def py_or_def get_or_def)

section \<open>The convergence driver\<close>

subsection \<open>More on runs\<close>


lemma run_steps_no_build_error:
  "run_steps cl ss h = (Inr u, h') \<Longrightarrow> Inl e \<notin> set ss"
proof (induction ss arbitrary: h)
  case Nil
  show ?case by simp
next
  case (Cons s ss)
  show ?case
  proof (cases s)
    case (Inl e')
    with Cons.prems show ?thesis by simp
  next
    case (Inr c)
    with Cons.prems Cons.IH show ?thesis
      by (auto split: prod.splits sum.splits)
  qed
qed

lemma provision_counts:
  assumes "provision cl topology h = (Inr c, h')"
  shows "\<exists>exs qs bs ps.
           collection topology ''exchanges'' = Inr exs \<and> collection topology ''queues'' = Inr qs \<and>
           collection topology ''bindings'' = Inr bs \<and> collection topology ''policies'' = Inr ps \<and>
           c = \<lparr>exchanges = length exs, queues = length qs, bindings = length bs, policies = length ps\<rparr>"
proof -
  obtain r h2 where run: "run_steps cl (steps topology) h = (r, h2)"
    by (cases "run_steps cl (steps topology) h")
  with assms obtain u where r: "r = Inr u"
    by (cases r) (simp_all add: provision_run_steps)
  have c: "c = \<lparr>exchanges = kind_count topology ''exchanges'', queues = kind_count topology ''queues'',
                bindings = kind_count topology ''bindings'', policies = kind_count topology ''policies''\<rparr>"
    using assms run r by (simp add: provision_run_steps)
  have no: "Inl e \<notin> set (steps topology)" for e
    using run_steps_no_build_error [of cl "steps topology" h u h2 e] run r by simp
  have "\<exists>xs. collection topology kind = Inr xs"
    if "\<And>e. Inl e \<notin> set (kind_steps topology kind mk)" for kind mk
    using that by (cases "collection topology kind") (auto simp: kind_steps_def)
  then obtain exs qs bs ps where
    "collection topology ''exchanges'' = Inr exs" "collection topology ''queues'' = Inr qs"
    "collection topology ''bindings'' = Inr bs" "collection topology ''policies'' = Inr ps"
    using no unfolding steps_def
    by (metis Un_iff set_append)
  then show ?thesis using c by (simp add: kind_count_def)
qed

lemma example_connect:
  "connect (example_runtime transport) (example_props text) world0 =
     (case json_loads (example_runtime transport) text of
        None \<Rightarrow> (Inl JSONDecodeError, world0)
      | Some topology \<Rightarrow>
          (Inr (example_client transport, topology),
           \<lparr>secret_reads = [(JStr ''us-east-2'', JStr ''arn'')], sent = []\<rparr>))"
  by (simp add: connect_def read_secret_def credentials_def loads_def fmt_def getitem_def get_or_def
        py_or_def b64_char_def world0_def Let_def example_runtime_def example_props_def
        example_client_def split: option.splits)

subsection \<open>The example inputs, evaluated\<close>

lemmas call_defs =
  orders_exchange_call_def orders_queue_call_def orders_binding_call_def orders_policy_call_def

lemmas builder_defs =
  getitem_def get_or_def vhost_def quote_from_bytes_def quote_byte_def always_safe_def hex_digit_def

lemma example_event_fields:
  "getitem (example_event request_type text) ''RequestType'' = Inr (JStr request_type)"
  "getitem (example_event request_type text) ''ResourceProperties'' = Inr (JObj (example_props text))"
  by (simp_all add: example_event_def getitem_def)

lemma example_calls:
  "map exchange_call [orders_exchange] = map Inr [orders_exchange_call]"
  "map queue_call [orders_queue] = map Inr [orders_queue_call]"
  "map binding_call [orders_binding] = map Inr [orders_binding_call]"
  "map policy_call [orders_policy] = map Inr [orders_policy_call]"
  "map policy_call [] = map Inr []"
  by (simp_all add: example_defs call_defs builder_defs)


lemma policy_collections:
  "collection orders_topology_with_policy ''exchanges'' = Inr [orders_exchange]"
  "collection orders_topology_with_policy ''queues'' = Inr [orders_queue]"
  "collection orders_topology_with_policy ''bindings'' = Inr [orders_binding]"
  "collection orders_topology_with_policy ''policies'' = Inr [orders_policy]"
  by (simp_all add: collection_def get_or_def orders_topology_with_policy_def)

lemma example_connect_orders:
  "connect (example_runtime transport) (example_props ''orders'') world0 =
     (Inr (example_client transport, orders_topology),
      \<lparr>secret_reads = [(JStr ''us-east-2'', JStr ''arn'')], sent = []\<rparr>)"
  "connect (example_runtime transport) (example_props ''policy'') world0 =
     (Inr (example_client transport, orders_topology_with_policy),
      \<lparr>secret_reads = [(JStr ''us-east-2'', JStr ''arn'')], sent = []\<rparr>)"
  by (simp_all add: example_connect) (simp_all add: example_runtime_def)



text \<open>
  Claim C4. When the calls before some call are accepted and the transport raises an
  HTTP error other than 200, 201 and 204 on that call, the handler fails with the
  \<^verbatim>\<open>HTTPError\<close> of that code (its body already read), and the requests sent are
  those of the calls before and of the failing call: none for a later entity, and none
  that would undo an earlier one.
\<close>

theorem fail_fast:
  assumes "getitem event ''RequestType'' = Inr rq"
    and "rq = JStr ''Create'' \<or> rq = JStr ''Update''"
    and "getitem event ''ResourceProperties'' = Inr (JObj props)"
    and "connect rt props w = (Inr (cl, topology), w1)"
    and "collection topology ''exchanges'' = Inr exs" and "map exchange_call exs = map Inr c1"
    and "collection topology ''queues'' = Inr qs" and "map queue_call qs = map Inr c2"
    and "collection topology ''bindings'' = Inr bs" and "map binding_call bs = map Inr c3"
    and "collection topology ''policies'' = Inr ps" and "map policy_call ps = map Inr c4"
    and "c1 @ c2 @ c3 @ c4 = pre @ c # post"
    and "all_accepted cl (sent w) pre"
    and "cl_urlopen cl (sent w @ map (request_of cl) pre) (request_of cl c) = RaisesHTTPError code body_text"
    and "code \<noteq> 200 \<and> code \<noteq> 201 \<and> code \<noteq> 204"
  shows "on_event rt event w =
           (Inl (HTTPError code []),
            w1\<lparr>sent := sent w @ map (request_of cl) pre @ [request_of cl c]\<rparr>)"
proof -
  have rq: "rq \<noteq> JStr ''Delete''" using assms(2) by auto
  have st: "steps topology = map Inr pre @ Inr c # map Inr post"
    using steps_well_formed [OF assms(5-12)] assms(13) by simp
  have "fst (api_call cl (sent w @ map (request_of cl) pre) c) = Inl (HTTPError code [])"
    using assms(15,16) by (cases c) (simp add: api_call_def api_def request_of_def Let_def)
  from run_steps_call_fails [OF assms(14) this, of "map Inr post"]
  show ?thesis
    using on_event_provision [OF assms(1) rq assms(3,4)] st
    by (simp add: provision_run_steps)
qed

text \<open>
  A 409 on the queue's PUT: the exchange's and the queue's requests have been sent, the
  binding's and the policy's have not.
\<close>

theorem fail_fast_witness:
  "on_event (example_runtime (conflict_on ''https://mq.test/api/queues/%2F/orders.q''))
     (example_event ''Update'' ''policy'') world0 =
     (Inl (HTTPError 409 []),
      \<lparr>secret_reads = [(JStr ''us-east-2'', JStr ''arn'')],
       sent = map (request_of (example_client (conflict_on ''https://mq.test/api/queues/%2F/orders.q'')))
                [orders_exchange_call, orders_queue_call]\<rparr>)"
proof -
  let ?cl = "example_client (conflict_on ''https://mq.test/api/queues/%2F/orders.q'')"
  have split: "[orders_exchange_call] @ [orders_queue_call] @ [orders_binding_call] @ [orders_policy_call] =
                 [orders_exchange_call] @ orders_queue_call # [orders_binding_call, orders_policy_call]"
    by simp
  have acc: "all_accepted ?cl (sent world0) [orders_exchange_call]"
    by (simp add: accepted_def api_call_def api_def call_defs example_client_def conflict_on_def
          mk_request_def)
  have out: "cl_urlopen ?cl (sent world0 @ map (request_of ?cl) [orders_exchange_call])
               (request_of ?cl orders_queue_call) = RaisesHTTPError 409 ''conflict''"
    by (simp add: request_of_def call_defs example_client_def conflict_on_def mk_request_def)
  have code: "(409::int) \<noteq> 200 \<and> (409::int) \<noteq> 201 \<and> (409::int) \<noteq> 204" by simp
  from fail_fast [OF example_event_fields(1) _ example_event_fields(2) example_connect_orders(2)
      policy_collections(1) example_calls(1) policy_collections(2) example_calls(2)
      policy_collections(3) example_calls(3) policy_collections(4) example_calls(4) split acc out code]
  show ?thesis by (simp add: world0_def)
qed

text \<open>
  Claim C6. A Create or Update that succeeds returns the token and, under
  \<^verbatim>\<open>Data\<close>, for each kind the number of entities the document has of it, as
  decimal text.
\<close>

theorem counts_returned:
  assumes "getitem event ''RequestType'' = Inr rq"
    and "rq = JStr ''Create'' \<or> rq = JStr ''Update''"
    and "getitem event ''ResourceProperties'' = Inr (JObj props)"
    and "connect rt props w = (Inr (cl, topology), w1)"
    and "on_event rt event w = (Inr res, w')"
  shows "\<exists>exs qs bs ps.
           collection topology ''exchanges'' = Inr exs \<and> collection topology ''queues'' = Inr qs \<and>
           collection topology ''bindings'' = Inr bs \<and> collection topology ''policies'' = Inr ps \<and>
           res = JObj [(''PhysicalResourceId'', JStr physical_id),
                       (''Data'', JObj [(''exchanges'', JStr (str_nat (length exs))),
                                        (''queues'', JStr (str_nat (length qs))),
                                        (''bindings'', JStr (str_nat (length bs))),
                                        (''policies'', JStr (str_nat (length ps)))])]"
proof -
  have rq: "rq \<noteq> JStr ''Delete''" using assms(2) by auto
  obtain r2 h2 where p: "provision cl topology (sent w) = (r2, h2)"
    by (cases "provision cl topology (sent w)")
  with on_event_provision [OF assms(1) rq assms(3,4)] assms(5)
  obtain c where c: "r2 = Inr c" "res = result_of c"
    by (cases r2) simp_all
  from provision_counts [of cl topology "sent w" c h2] p c(1) c(2)
  show ?thesis by (auto simp: result_of_def)
qed

text \<open>
  The scenario: three requests in order (exchange PUT, queue PUT, binding POST) and the
  counts 1, 1, 1, 0.
\<close>

theorem counts_returned_witness:
  "on_event (example_runtime no_content) (example_event ''Create'' ''orders'') world0 =
     (Inr (JObj [(''PhysicalResourceId'', JStr ''rabbitmq-topology-v1''),
                 (''Data'', JObj [(''exchanges'', JStr ''1''), (''queues'', JStr ''1''),
                                  (''bindings'', JStr ''1''), (''policies'', JStr ''0'')])]),
      \<lparr>secret_reads = [(JStr ''us-east-2'', JStr ''arn'')],
       sent = map (request_of (example_client no_content))
                [orders_exchange_call, orders_queue_call, orders_binding_call]\<rparr>) \<and>
   (\<exists>exs qs bs ps.
      collection orders_topology ''exchanges'' = Inr exs \<and> collection orders_topology ''queues'' = Inr qs \<and>
      collection orders_topology ''bindings'' = Inr bs \<and> collection orders_topology ''policies'' = Inr ps \<and>
      JObj [(''PhysicalResourceId'', JStr ''rabbitmq-topology-v1''),
            (''Data'', JObj [(''exchanges'', JStr ''1''), (''queues'', JStr ''1''),
                             (''bindings'', JStr ''1''), (''policies'', JStr ''0'')])] =
      JObj [(''PhysicalResourceId'', JStr physical_id),
            (''Data'', JObj [(''exchanges'', JStr (str_nat (length exs))),
                             (''queues'', JStr (str_nat (length qs))),
                             (''bindings'', JStr (str_nat (length bs))),
                             (''policies'', JStr (str_nat (length ps)))])])"
proof -
  have rq: "JStr ''Create'' = JStr ''Create'' \<or> JStr ''Create'' = JStr ''Update''" by simp
  have run: "on_event (example_runtime no_content) (example_event ''Create'' ''orders'') world0 =
     (Inr (JObj [(''PhysicalResourceId'', JStr ''rabbitmq-topology-v1''),
                 (''Data'', JObj [(''exchanges'', JStr ''1''), (''queues'', JStr ''1''),
                                  (''bindings'', JStr ''1''), (''policies'', JStr ''0'')])]),
      \<lparr>secret_reads = [(JStr ''us-east-2'', JStr ''arn'')],
       sent = map (request_of (example_client no_content))
                [orders_exchange_call, orders_queue_call, orders_binding_call]\<rparr>)"
    using example_create by (simp add: call_defs)
  from counts_returned [OF example_event_fields(1) rq example_event_fields(2)
      example_connect_orders(1) run] run
  show ?thesis by (intro conjI) assumption+
qed

section \<open>Request bodies and paths\<close>

lemma exchange_body:
  "exchange_call (JObj d) = Inr (m, p, body) \<Longrightarrow>
      body = JObj [(''type'', case map_of d ''type'' of None \<Rightarrow> JStr ''direct'' | Some v \<Rightarrow> v),
                   (''durable'', case map_of d ''durable'' of None \<Rightarrow> JBool True | Some v \<Rightarrow> v),
                   (''auto_delete'', case map_of d ''auto_delete'' of None \<Rightarrow> JBool False | Some v \<Rightarrow> v),
                   (''arguments'', case map_of d ''arguments'' of None \<Rightarrow> JObj [] | Some v \<Rightarrow> v)]"
  by (cases "map_of d ''name''") (simp_all add: getitem_def get_or_def split: sum.splits)

lemma queue_body:
  "queue_call (JObj d) = Inr (m, p, body) \<Longrightarrow>
      body = JObj [(''durable'', case map_of d ''durable'' of None \<Rightarrow> JBool True | Some v \<Rightarrow> v),
                   (''auto_delete'', case map_of d ''auto_delete'' of None \<Rightarrow> JBool False | Some v \<Rightarrow> v),
                   (''arguments'', case map_of d ''arguments'' of None \<Rightarrow> JObj [] | Some v \<Rightarrow> v)]"
  by (cases "map_of d ''name''") (simp_all add: getitem_def get_or_def split: sum.splits)

lemma binding_body:
  "binding_call (JObj d) = Inr (m, p, body) \<Longrightarrow>
      body = JObj [(''routing_key'', case map_of d ''routing_key'' of None \<Rightarrow> JStr [] | Some v \<Rightarrow> v),
                   (''arguments'', case map_of d ''arguments'' of None \<Rightarrow> JObj [] | Some v \<Rightarrow> v)]"
  by (cases "map_of d ''source''"; cases "map_of d ''destination''")
     (simp_all add: getitem_def get_or_def split: sum.splits)

lemma policy_body:
  "policy_call (JObj d) = Inr (m, p, body) \<Longrightarrow>
      \<exists>pattern definition'.
         map_of d ''pattern'' = Some pattern \<and> map_of d ''definition'' = Some definition' \<and>
         body = JObj [(''pattern'', pattern), (''definition'', definition'),
                      (''apply-to'', case map_of d ''apply_to'' of None \<Rightarrow> JStr ''queues'' | Some v \<Rightarrow> v),
                      (''priority'', case map_of d ''priority'' of None \<Rightarrow> JInt 0 | Some v \<Rightarrow> v)]"
  by (cases "map_of d ''name''"; cases "map_of d ''pattern''"; cases "map_of d ''definition''")
     (simp_all add: getitem_def get_or_def split: sum.splits)

lemma policy_required:
  "map_of d ''pattern'' = None \<or> map_of d ''definition'' = None \<Longrightarrow> \<exists>e. policy_call (JObj d) = Inl e"
  by (cases "map_of d ''name''"; cases "map_of d ''pattern''"; cases "map_of d ''definition''")
     (simp_all add: getitem_def split: sum.splits)

text \<open>
  Claim C7. The body of each call holds, for every optional field, the document's value
  when the entity has the key and the default otherwise: exchange type direct, durable
  true, auto_delete false, arguments empty; the same for a queue, without the type; for a
  binding routing_key empty and arguments empty; for a policy apply_to queues, sent as
  apply-to, and priority 0. A policy's pattern and definition are the document's, and a
  policy without one of them gives no call. The body is what the request carries.
\<close>

theorem entity_defaults:
  "(exchange_call (JObj d) = Inr (m, p, body) \<longrightarrow>
      body = JObj [(''type'', case map_of d ''type'' of None \<Rightarrow> JStr ''direct'' | Some v \<Rightarrow> v),
                   (''durable'', case map_of d ''durable'' of None \<Rightarrow> JBool True | Some v \<Rightarrow> v),
                   (''auto_delete'', case map_of d ''auto_delete'' of None \<Rightarrow> JBool False | Some v \<Rightarrow> v),
                   (''arguments'', case map_of d ''arguments'' of None \<Rightarrow> JObj [] | Some v \<Rightarrow> v)]) \<and>
   (queue_call (JObj d) = Inr (m, p, body) \<longrightarrow>
      body = JObj [(''durable'', case map_of d ''durable'' of None \<Rightarrow> JBool True | Some v \<Rightarrow> v),
                   (''auto_delete'', case map_of d ''auto_delete'' of None \<Rightarrow> JBool False | Some v \<Rightarrow> v),
                   (''arguments'', case map_of d ''arguments'' of None \<Rightarrow> JObj [] | Some v \<Rightarrow> v)]) \<and>
   (binding_call (JObj d) = Inr (m, p, body) \<longrightarrow>
      body = JObj [(''routing_key'', case map_of d ''routing_key'' of None \<Rightarrow> JStr [] | Some v \<Rightarrow> v),
                   (''arguments'', case map_of d ''arguments'' of None \<Rightarrow> JObj [] | Some v \<Rightarrow> v)]) \<and>
   (policy_call (JObj d) = Inr (m, p, body) \<longrightarrow>
      (\<exists>pattern definition'.
         map_of d ''pattern'' = Some pattern \<and> map_of d ''definition'' = Some definition' \<and>
         body = JObj [(''pattern'', pattern), (''definition'', definition'),
                      (''apply-to'', case map_of d ''apply_to'' of None \<Rightarrow> JStr ''queues'' | Some v \<Rightarrow> v),
                      (''priority'', case map_of d ''priority'' of None \<Rightarrow> JInt 0 | Some v \<Rightarrow> v)])) \<and>
   (map_of d ''pattern'' = None \<or> map_of d ''definition'' = None \<longrightarrow>
      (\<exists>e. policy_call (JObj d) = Inl e)) \<and>
   req_data (mk_request cl m p (Some (JObj (kv # kvs)))) = Some (JObj (kv # kvs))"
proof (intro conjI impI)
  show "req_data (mk_request cl m p (Some (JObj (kv # kvs)))) = Some (JObj (kv # kvs))"
    by (simp add: mk_request_def)
qed (erule exchange_body queue_body binding_body policy_body policy_required)+

text \<open>Entities with their required fields only.\<close>

theorem entity_defaults_witness:
  "exchange_call (JObj [(''name'', JStr ''q'')]) =
     Inr (''PUT'', ''/exchanges/%2F/q'',
          JObj [(''type'', JStr ''direct''), (''durable'', JBool True),
                (''auto_delete'', JBool False), (''arguments'', JObj [])]) \<and>
   queue_call (JObj [(''name'', JStr ''q'')]) =
     Inr (''PUT'', ''/queues/%2F/q'',
          JObj [(''durable'', JBool True), (''auto_delete'', JBool False), (''arguments'', JObj [])]) \<and>
   binding_call (JObj [(''source'', JStr ''e''), (''destination'', JStr ''q'')]) =
     Inr (''POST'', ''/bindings/%2F/e/e/q/q'',
          JObj [(''routing_key'', JStr ''''), (''arguments'', JObj [])]) \<and>
   policy_call (JObj [(''name'', JStr ''p''), (''pattern'', JStr ''.*''),
                      (''definition'', JObj [(''ha-mode'', JStr ''all'')])]) =
     Inr (''PUT'', ''/policies/%2F/p'',
          JObj [(''pattern'', JStr ''.*''), (''definition'', JObj [(''ha-mode'', JStr ''all'')]),
                (''apply-to'', JStr ''queues''), (''priority'', JInt 0)]) \<and>
   (\<exists>e. policy_call (JObj [(''name'', JStr ''p''), (''pattern'', JStr ''.*'')]) = Inl e)"
proof -
  have e: "exchange_call (JObj [(''name'', JStr ''q'')]) =
             Inr (''PUT'', ''/exchanges/%2F/q'', snd (snd (projr (exchange_call (JObj [(''name'', JStr ''q'')])))))"
    and q: "queue_call (JObj [(''name'', JStr ''q'')]) =
             Inr (''PUT'', ''/queues/%2F/q'', snd (snd (projr (queue_call (JObj [(''name'', JStr ''q'')])))))"
    and b: "binding_call (JObj [(''source'', JStr ''e''), (''destination'', JStr ''q'')]) =
             Inr (''POST'', ''/bindings/%2F/e/e/q/q'',
                  snd (snd (projr (binding_call (JObj [(''source'', JStr ''e''), (''destination'', JStr ''q'')])))))"
    and p: "policy_call (JObj [(''name'', JStr ''p''), (''pattern'', JStr ''.*''),
                               (''definition'', JObj [(''ha-mode'', JStr ''all'')])]) =
             Inr (''PUT'', ''/policies/%2F/p'',
                  snd (snd (projr (policy_call (JObj [(''name'', JStr ''p''), (''pattern'', JStr ''.*''),
                               (''definition'', JObj [(''ha-mode'', JStr ''all'')])])))))"
    by (simp_all add: builder_defs)
  note t = entity_defaults [where cl = "example_client no_content" and kv = "(''a'', JNull)" and kvs = "[]"]
  from e t [of "[(''name'', JStr ''q'')]" "''PUT''" "''/exchanges/%2F/q''"]
  have 1: "exchange_call (JObj [(''name'', JStr ''q'')]) =
     Inr (''PUT'', ''/exchanges/%2F/q'',
          JObj [(''type'', JStr ''direct''), (''durable'', JBool True),
                (''auto_delete'', JBool False), (''arguments'', JObj [])])"
    by simp
  from q t [of "[(''name'', JStr ''q'')]" "''PUT''" "''/queues/%2F/q''"]
  have 2: "queue_call (JObj [(''name'', JStr ''q'')]) =
     Inr (''PUT'', ''/queues/%2F/q'',
          JObj [(''durable'', JBool True), (''auto_delete'', JBool False), (''arguments'', JObj [])])"
    by simp
  from b t [of "[(''source'', JStr ''e''), (''destination'', JStr ''q'')]" "''POST''" "''/bindings/%2F/e/e/q/q''"]
  have 3: "binding_call (JObj [(''source'', JStr ''e''), (''destination'', JStr ''q'')]) =
     Inr (''POST'', ''/bindings/%2F/e/e/q/q'',
          JObj [(''routing_key'', JStr ''''), (''arguments'', JObj [])])"
    by simp
  from p t [of "[(''name'', JStr ''p''), (''pattern'', JStr ''.*''),
                 (''definition'', JObj [(''ha-mode'', JStr ''all'')])]" "''PUT''" "''/policies/%2F/p''"]
  have 4: "policy_call (JObj [(''name'', JStr ''p''), (''pattern'', JStr ''.*''),
                      (''definition'', JObj [(''ha-mode'', JStr ''all'')])]) =
     Inr (''PUT'', ''/policies/%2F/p'',
          JObj [(''pattern'', JStr ''.*''), (''definition'', JObj [(''ha-mode'', JStr ''all'')]),
                (''apply-to'', JStr ''queues''), (''priority'', JInt 0)])"
    by simp
  from t [of "[(''name'', JStr ''p''), (''pattern'', JStr ''.*'')]" "[]" "[]" JNull]
  have 5: "\<exists>e. policy_call (JObj [(''name'', JStr ''p''), (''pattern'', JStr ''.*'')]) = Inl e"
    by simp
  from 1 2 3 4 5 show ?thesis by (intro conjI)
qed

lemma quote_str: "quote v = Inr enc \<longleftrightarrow> (\<exists>s. v = JStr s \<and> enc = quote_from_bytes s)"
  by (cases v) auto

lemma exchange_path:
  "exchange_call (JObj d) = Inr (m, p, body) \<Longrightarrow>
     \<exists>name. map_of d ''name'' = Some (JStr name) \<and> m = ''PUT'' \<and>
            p = ''/exchanges/%2F/'' @ quote_from_bytes name"
  by (cases "map_of d ''name''")
     (auto simp: getitem_def vhost_def quote_str split: sum.splits)

lemma queue_path:
  "queue_call (JObj d) = Inr (m, p, body) \<Longrightarrow>
     \<exists>name. map_of d ''name'' = Some (JStr name) \<and> m = ''PUT'' \<and>
            p = ''/queues/%2F/'' @ quote_from_bytes name"
  by (cases "map_of d ''name''")
     (auto simp: getitem_def vhost_def quote_str split: sum.splits)

lemma policy_path:
  "policy_call (JObj d) = Inr (m, p, body) \<Longrightarrow>
     \<exists>name. map_of d ''name'' = Some (JStr name) \<and> m = ''PUT'' \<and>
            p = ''/policies/%2F/'' @ quote_from_bytes name"
  by (cases "map_of d ''name''"; cases "map_of d ''pattern''"; cases "map_of d ''definition''")
     (auto simp: getitem_def vhost_def quote_str split: sum.splits)

lemma binding_path:
  "binding_call (JObj d) = Inr (m, p, body) \<Longrightarrow>
     \<exists>source destination.
        map_of d ''source'' = Some (JStr source) \<and> map_of d ''destination'' = Some (JStr destination) \<and>
        m = ''POST'' \<and>
        p = ''/bindings/%2F/e/'' @ quote_from_bytes source @ ''/q/'' @ quote_from_bytes destination"
  by (cases "map_of d ''source''"; cases "map_of d ''destination''")
     (auto simp: getitem_def vhost_def quote_str split: sum.splits)

text \<open>
  Claim C8. The path of each call is the fixed prefix of its kind followed by
  \<^verbatim>\<open>quote(name, safe="")\<close> of the name (for a binding, of the source and of the
  destination). That encoding reads back as the name, and it consists of unreserved
  ASCII characters and \<^verbatim>\<open>%\<close> only: no slash, no space and no byte outside ASCII
  is left in it.
\<close>

theorem names_percent_encoded:
  "(exchange_call (JObj d) = Inr (m, p, body) \<longrightarrow>
      (\<exists>name. map_of d ''name'' = Some (JStr name) \<and> m = ''PUT'' \<and>
              p = ''/exchanges/%2F/'' @ quote_from_bytes name)) \<and>
   (queue_call (JObj d) = Inr (m, p, body) \<longrightarrow>
      (\<exists>name. map_of d ''name'' = Some (JStr name) \<and> m = ''PUT'' \<and>
              p = ''/queues/%2F/'' @ quote_from_bytes name)) \<and>
   (binding_call (JObj d) = Inr (m, p, body) \<longrightarrow>
      (\<exists>source destination.
         map_of d ''source'' = Some (JStr source) \<and> map_of d ''destination'' = Some (JStr destination) \<and>
         m = ''POST'' \<and>
         p = ''/bindings/%2F/e/'' @ quote_from_bytes source @ ''/q/'' @ quote_from_bytes destination)) \<and>
   (policy_call (JObj d) = Inr (m, p, body) \<longrightarrow>
      (\<exists>name. map_of d ''name'' = Some (JStr name) \<and> m = ''PUT'' \<and>
              p = ''/policies/%2F/'' @ quote_from_bytes name)) \<and>
   percent_decode (quote_from_bytes s) = s \<and>
   (\<forall>c\<in>set (quote_from_bytes s).
      (always_safe c \<or> c = CHR ''%'') \<and> c \<noteq> CHR ''/'' \<and> c \<noteq> CHR '' '' \<and> of_char c < (128::nat))"
proof (intro conjI impI ballI)
  show "percent_decode (quote_from_bytes s) = s" by (rule percent_decode_quote)
next
  fix c assume "c \<in> set (quote_from_bytes s)"
  then have c: "always_safe c \<or> c = CHR ''%''" by (rule quote_chars)
  then show "always_safe c \<or> c = CHR ''%''" .
  from c show "c \<noteq> CHR ''/''" using always_safe_ascii [of c] by auto
  from c show "c \<noteq> CHR '' ''" using always_safe_ascii [of c] by auto
  from c show "of_char c < (128::nat)" using always_safe_ascii [of c] by auto
qed (erule exchange_path queue_path binding_path policy_path)+

text \<open>
  All four kinds on a name with a slash, a space and a two-byte character: each builder
  gives its call, and the path holds the encoded name.
\<close>

theorem names_percent_encoded_witness:
  "quote_from_bytes odd_name = ''a%2Fb%20c%C3%A9'' \<and>
   percent_decode ''a%2Fb%20c%C3%A9'' = odd_name \<and>
   exchange_call (JObj [(''name'', JStr odd_name), (''type'', JStr ''fanout'')]) =
     Inr (''PUT'', ''/exchanges/%2F/a%2Fb%20c%C3%A9'',
          JObj [(''type'', JStr ''fanout''), (''durable'', JBool True),
                (''auto_delete'', JBool False), (''arguments'', JObj [])]) \<and>
   queue_call (JObj [(''name'', JStr odd_name)]) =
     Inr (''PUT'', ''/queues/%2F/a%2Fb%20c%C3%A9'',
          JObj [(''durable'', JBool True), (''auto_delete'', JBool False), (''arguments'', JObj [])]) \<and>
   binding_call (JObj [(''source'', JStr odd_name), (''destination'', JStr ''q/1'')]) =
     Inr (''POST'', ''/bindings/%2F/e/a%2Fb%20c%C3%A9/q/q%2F1'',
          JObj [(''routing_key'', JStr ''''), (''arguments'', JObj [])]) \<and>
   policy_call (JObj [(''name'', JStr odd_name), (''pattern'', JStr ''.*''),
                      (''definition'', JObj [(''ha-mode'', JStr ''all'')])]) =
     Inr (''PUT'', ''/policies/%2F/a%2Fb%20c%C3%A9'',
          JObj [(''pattern'', JStr ''.*''), (''definition'', JObj [(''ha-mode'', JStr ''all'')]),
                (''apply-to'', JStr ''queues''), (''priority'', JInt 0)]) \<and>
   CHR ''/'' \<notin> set (quote_from_bytes odd_name) \<and> CHR '' '' \<notin> set (quote_from_bytes odd_name)"
proof -
  let ?ex = "[(''name'', JStr odd_name), (''type'', JStr ''fanout'')]"
  let ?q = "[(''name'', JStr odd_name)]"
  let ?b = "[(''source'', JStr odd_name), (''destination'', JStr ''q/1'')]"
  let ?p = "[(''name'', JStr odd_name), (''pattern'', JStr ''.*''),
             (''definition'', JObj [(''ha-mode'', JStr ''all'')])]"
  let ?ex_body = "JObj [(''type'', JStr ''fanout''), (''durable'', JBool True),
                        (''auto_delete'', JBool False), (''arguments'', JObj [])]"
  let ?q_body = "JObj [(''durable'', JBool True), (''auto_delete'', JBool False), (''arguments'', JObj [])]"
  let ?b_body = "JObj [(''routing_key'', JStr []), (''arguments'', JObj [])]"
  let ?p_body = "JObj [(''pattern'', JStr ''.*''), (''definition'', JObj [(''ha-mode'', JStr ''all'')]),
                       (''apply-to'', JStr ''queues''), (''priority'', JInt 0)]"
  have enc: "quote_from_bytes odd_name = ''a%2Fb%20c%C3%A9''"
    by (simp add: odd_name_def builder_defs)
  have enc2: "quote_from_bytes ''q/1'' = ''q%2F1''"
    by (simp add: builder_defs)
  have ex: "exchange_call (JObj ?ex) =
              Inr (''PUT'', fst (snd (projr (exchange_call (JObj ?ex)))), ?ex_body)"
    and q: "queue_call (JObj ?q) = Inr (''PUT'', fst (snd (projr (queue_call (JObj ?q)))), ?q_body)"
    and b: "binding_call (JObj ?b) = Inr (''POST'', fst (snd (projr (binding_call (JObj ?b)))), ?b_body)"
    and p: "policy_call (JObj ?p) = Inr (''PUT'', fst (snd (projr (policy_call (JObj ?p)))), ?p_body)"
    by (simp_all add: getitem_def get_or_def)
  note t = names_percent_encoded [where s = odd_name]
  from ex t [of ?ex "''PUT''" "fst (snd (projr (exchange_call (JObj ?ex))))" ?ex_body]
  have 1: "fst (snd (projr (exchange_call (JObj ?ex)))) = ''/exchanges/%2F/'' @ quote_from_bytes odd_name"
    by simp
  from q t [of ?q "''PUT''" "fst (snd (projr (queue_call (JObj ?q))))" ?q_body]
  have 2: "fst (snd (projr (queue_call (JObj ?q)))) = ''/queues/%2F/'' @ quote_from_bytes odd_name"
    by simp
  from b t [of ?b "''POST''" "fst (snd (projr (binding_call (JObj ?b))))" ?b_body]
  have 3: "fst (snd (projr (binding_call (JObj ?b)))) =
             ''/bindings/%2F/e/'' @ quote_from_bytes odd_name @ ''/q/'' @ quote_from_bytes ''q/1''"
    by simp
  from p t [of ?p "''PUT''" "fst (snd (projr (policy_call (JObj ?p))))" ?p_body]
  have 4: "fst (snd (projr (policy_call (JObj ?p)))) = ''/policies/%2F/'' @ quote_from_bytes odd_name"
    by simp
  from t [of ?q "''PUT''" "[]" JNull] enc
  have dec: "percent_decode ''a%2Fb%20c%C3%A9'' = odd_name"
    and chars: "\<forall>c\<in>set (quote_from_bytes odd_name). c \<noteq> CHR ''/'' \<and> c \<noteq> CHR '' ''"
    by auto
  from chars have no: "CHR ''/'' \<notin> set (quote_from_bytes odd_name)"
      "CHR '' '' \<notin> set (quote_from_bytes odd_name)"
    by blast+
  have ex': "exchange_call (JObj ?ex) = Inr (''PUT'', ''/exchanges/%2F/a%2Fb%20c%C3%A9'', ?ex_body)"
    using ex 1 enc by simp
  have q': "queue_call (JObj ?q) = Inr (''PUT'', ''/queues/%2F/a%2Fb%20c%C3%A9'', ?q_body)"
    using q 2 enc by simp
  have b': "binding_call (JObj ?b) = Inr (''POST'', ''/bindings/%2F/e/a%2Fb%20c%C3%A9/q/q%2F1'', ?b_body)"
    using b 3 enc enc2 by simp
  have p': "policy_call (JObj ?p) = Inr (''PUT'', ''/policies/%2F/a%2Fb%20c%C3%A9'', ?p_body)"
    using p 4 enc by simp
  from enc dec ex' q' b' p' no show ?thesis by (intro conjI)
qed

section \<open>Documents that are not well formed\<close>

lemma connect_bad_json:
  assumes "getitem props ''SecretArn'' = Inr arn" and "getitem props ''BrokerHost'' = Inr host"
    and "getitem props ''Topology'' = Inr (JStr text)" and "json_loads rt text = None"
  shows "connect rt props w = (Inl JSONDecodeError, w)"
  using assms by (simp add: connect_def loads_def Let_def)

lemma connect_reads:
  "connect rt props w = (Inr x, w1) \<Longrightarrow>
     \<exists>region secret_id. secret_reads w1 = secret_reads w @ [(region, secret_id)]"
  by (auto simp: connect_def Let_def split: sum.splits prod.splits)

lemma on_event_connect_fails:
  assumes "getitem event ''RequestType'' = Inr rq" and "rq \<noteq> JStr ''Delete''"
    and "getitem event ''ResourceProperties'' = Inr (JObj props)"
    and "connect rt props w = (Inl e, w1)"
  shows "on_event rt event w = (Inl e, w1)"
proof -
  have "get_or event ''ResourceProperties'' (JObj []) = JObj props"
    using assms(3) by (simp add: getitem_def get_or_def split: option.splits)
  then show ?thesis
    using assms by (simp add: on_event_def is_dict_def)
qed

lemma missing_name:
  "map_of d ''name'' = None \<Longrightarrow>
     exchange_call (JObj d) = Inl (KeyError ''name'') \<and> queue_call (JObj d) = Inl (KeyError ''name'') \<and>
     policy_call (JObj d) = Inl (KeyError ''name'')"
  by (simp add: getitem_def)

lemma missing_binding_field:
  "map_of d ''source'' = None \<Longrightarrow> binding_call (JObj d) = Inl (KeyError ''source'')"
  "map_of d ''source'' = Some (JStr s) \<Longrightarrow> map_of d ''destination'' = None \<Longrightarrow>
     binding_call (JObj d) = Inl (KeyError ''destination'')"
  by (simp_all add: getitem_def)

lemma missing_policy_field:
  "map_of d ''name'' = Some (JStr s) \<Longrightarrow> map_of d ''pattern'' = None \<Longrightarrow>
     policy_call (JObj d) = Inl (KeyError ''pattern'')"
  "map_of d ''name'' = Some (JStr s) \<Longrightarrow> map_of d ''pattern'' = Some v \<Longrightarrow>
     map_of d ''definition'' = None \<Longrightarrow> policy_call (JObj d) = Inl (KeyError ''definition'')"
  by (simp_all add: getitem_def)

text \<open>
  Claim C5, as the code has it; the event is a Create or an Update. A topology text that
  \<^verbatim>\<open>json.loads\<close> rejects makes the handler fail before the secret store is read
  and before any request. An entity without a required field raises KeyError where its
  call would have been built: when the steps before it are calls and are accepted, the
  handler fails with that error after the secret store has been read and those calls have
  been made, and it makes no call for that entity or a later one. An entity that stands
  twice in a list gives its step twice.
\<close>

theorem malformed_topology:
  assumes "getitem event ''RequestType'' = Inr rq" and "rq \<noteq> JStr ''Delete''"
    and "getitem event ''ResourceProperties'' = Inr (JObj props)"
  shows
   "(getitem props ''SecretArn'' = Inr arn \<and> getitem props ''BrokerHost'' = Inr host \<and>
     getitem props ''Topology'' = Inr (JStr text) \<and> json_loads rt text = None \<longrightarrow>
       on_event rt event w = (Inl JSONDecodeError, w)) \<and>
    (connect rt props w = (Inr (cl, topology), w1) \<and> steps topology = map Inr pre @ Inl e # rest \<and>
     all_accepted cl (sent w) pre \<longrightarrow>
       on_event rt event w = (Inl e, w1\<lparr>sent := sent w @ map (request_of cl) pre\<rparr>) \<and>
       (\<exists>region secret_id. secret_reads w1 = secret_reads w @ [(region, secret_id)])) \<and>
    (map_of d ''name'' = None \<longrightarrow>
       exchange_call (JObj d) = Inl (KeyError ''name'') \<and> queue_call (JObj d) = Inl (KeyError ''name'') \<and>
       policy_call (JObj d) = Inl (KeyError ''name'')) \<and>
    (map_of d ''source'' = None \<longrightarrow> binding_call (JObj d) = Inl (KeyError ''source'')) \<and>
    (map_of d ''source'' = Some (JStr s) \<and> map_of d ''destination'' = None \<longrightarrow>
       binding_call (JObj d) = Inl (KeyError ''destination'')) \<and>
    (map_of d ''name'' = Some (JStr s) \<and> map_of d ''pattern'' = None \<longrightarrow>
       policy_call (JObj d) = Inl (KeyError ''pattern'')) \<and>
    (map_of d ''name'' = Some (JStr s) \<and> map_of d ''pattern'' = Some v \<and> map_of d ''definition'' = None \<longrightarrow>
       policy_call (JObj d) = Inl (KeyError ''definition'')) \<and>
    kind_steps (JObj [(kind, JArr [x, x])]) kind mk = [mk x, mk x]"
proof (intro conjI impI)
  assume "getitem props ''SecretArn'' = Inr arn \<and> getitem props ''BrokerHost'' = Inr host \<and>
     getitem props ''Topology'' = Inr (JStr text) \<and> json_loads rt text = None"
  then have "connect rt props w = (Inl JSONDecodeError, w)"
    by (simp add: connect_bad_json)
  then show "on_event rt event w = (Inl JSONDecodeError, w)"
    by (rule on_event_connect_fails [OF assms])
next
  assume a: "connect rt props w = (Inr (cl, topology), w1) \<and>
     steps topology = map Inr pre @ Inl e # rest \<and> all_accepted cl (sent w) pre"
  then have "run_steps cl (steps topology) (sent w) = (Inl e, sent w @ map (request_of cl) pre)"
    by (simp add: run_steps_build_fails)
  then show "on_event rt event w = (Inl e, w1\<lparr>sent := sent w @ map (request_of cl) pre\<rparr>)"
    using a on_event_provision [OF assms, of rt w cl topology w1]
    by (simp add: provision_run_steps)
  from a show "\<exists>region secret_id. secret_reads w1 = secret_reads w @ [(region, secret_id)]"
    using connect_reads by blast
next
  show "kind_steps (JObj [(kind, JArr [x, x])]) kind mk = [mk x, mk x]"
    by (simp add: kind_steps_def collection_def get_or_def)
qed (auto simp: getitem_def)

lemma nameless_steps:
  "steps nameless_topology =
     map Inr [orders_exchange_call, orders_queue_call] @ Inl (KeyError ''name'') # [Inr orders_binding_call]"
  by (simp add: steps_def kind_steps_def collection_def nameless_topology_def
        orders_exchange_def orders_queue_def orders_binding_def call_defs builder_defs)

lemma example_connect_nameless:
  "connect (example_runtime transport) (example_props ''nameless'') world0 =
     (Inr (example_client transport, nameless_topology),
      \<lparr>secret_reads = [(JStr ''us-east-2'', JStr ''arn'')], sent = []\<rparr>)"
  by (simp add: example_connect) (simp add: example_runtime_def)

theorem malformed_topology_witness:
  "on_event (example_runtime no_content) (example_event ''Create'' ''{'') world0 =
     (Inl JSONDecodeError, world0) \<and>
   on_event (example_runtime no_content) (example_event ''Create'' ''nameless'') world0 =
     (Inl (KeyError ''name''),
      \<lparr>secret_reads = [(JStr ''us-east-2'', JStr ''arn'')],
       sent = map (request_of (example_client no_content)) [orders_exchange_call, orders_queue_call]\<rparr>) \<and>
   queue_call (JObj [(''durable'', JBool True)]) = Inl (KeyError ''name'') \<and>
   binding_call (JObj [(''destination'', JStr ''q'')]) = Inl (KeyError ''source'') \<and>
   binding_call (JObj [(''source'', JStr ''e'')]) = Inl (KeyError ''destination'') \<and>
   policy_call (JObj [(''name'', JStr ''p''), (''definition'', JObj [])]) = Inl (KeyError ''pattern'') \<and>
   policy_call (JObj [(''name'', JStr ''p''), (''pattern'', JStr ''.*'')]) = Inl (KeyError ''definition'') \<and>
   kind_steps (JObj [(''queues'', JArr [orders_queue, orders_queue])]) ''queues'' queue_call =
     [Inr orders_queue_call, Inr orders_queue_call]"
proof -
  have rq: "JStr ''Create'' \<noteq> JStr ''Delete''" by simp
  have props: "getitem (example_props ''{'') ''SecretArn'' = Inr (JStr ''arn'')"
      "getitem (example_props ''{'') ''BrokerHost'' = Inr (JStr ''mq.test'')"
      "getitem (example_props ''{'') ''Topology'' = Inr (JStr ''{'')"
      "json_loads (example_runtime no_content) ''{'' = None"
    by (simp_all add: example_props_def example_runtime_def getitem_def)
  have acc: "all_accepted (example_client no_content) (sent world0) [orders_exchange_call, orders_queue_call]"
    by (simp add: accepted_def api_call_def api_def call_defs example_client_def no_content_def)
  have qc: "queue_call orders_queue = Inr orders_queue_call"
    by (simp add: orders_queue_def call_defs builder_defs)
  note t1 = malformed_topology [OF example_event_fields(1) rq example_event_fields(2),
      of "''{''" "JStr ''arn''" "JStr ''mq.test''" "''{''" "example_runtime no_content" world0]
  note t2 = malformed_topology [OF example_event_fields(1) rq example_event_fields(2),
      of "''nameless''" _ _ _ "example_runtime no_content" world0 "example_client no_content"
         nameless_topology "\<lparr>secret_reads = [(JStr ''us-east-2'', JStr ''arn'')], sent = []\<rparr>"
         "[orders_exchange_call, orders_queue_call]" "KeyError ''name''" "[Inr orders_binding_call]"]
  note t3 = malformed_topology [OF example_event_fields(1) rq example_event_fields(2),
      where d = "[(''durable'', JBool True)]" and kind = "''queues''" and x = orders_queue
        and mk = queue_call]
  note t4 = malformed_topology [OF example_event_fields(1) rq example_event_fields(2),
      where d = "[(''destination'', JStr ''q'')]"]
  note t5 = malformed_topology [OF example_event_fields(1) rq example_event_fields(2),
      where d = "[(''source'', JStr ''e'')]" and s = "''e''"]
  note t6 = malformed_topology [OF example_event_fields(1) rq example_event_fields(2),
      where d = "[(''name'', JStr ''p''), (''definition'', JObj [])]" and s = "''p''"]
  note t7 = malformed_topology [OF example_event_fields(1) rq example_event_fields(2),
      where d = "[(''name'', JStr ''p''), (''pattern'', JStr ''.*'')]" and s = "''p''" and v = "JStr ''.*''"]
  have 1: "on_event (example_runtime no_content) (example_event ''Create'' ''{'') world0 =
     (Inl JSONDecodeError, world0)"
    using t1 props by blast
  have 2: "on_event (example_runtime no_content) (example_event ''Create'' ''nameless'') world0 =
     (Inl (KeyError ''name''),
      \<lparr>secret_reads = [(JStr ''us-east-2'', JStr ''arn'')],
       sent = map (request_of (example_client no_content)) [orders_exchange_call, orders_queue_call]\<rparr>)"
    using t2 example_connect_nameless [of no_content] nameless_steps acc by (simp add: world0_def)
  have 3: "queue_call (JObj [(''durable'', JBool True)]) = Inl (KeyError ''name'')"
    and 8: "kind_steps (JObj [(''queues'', JArr [orders_queue, orders_queue])]) ''queues'' queue_call =
     [Inr orders_queue_call, Inr orders_queue_call]"
    using t3 qc by simp_all
  have 4: "binding_call (JObj [(''destination'', JStr ''q'')]) = Inl (KeyError ''source'')"
    using t4 by simp
  have 5: "binding_call (JObj [(''source'', JStr ''e'')]) = Inl (KeyError ''destination'')"
    using t5 by simp
  have 6: "policy_call (JObj [(''name'', JStr ''p''), (''definition'', JObj [])]) = Inl (KeyError ''pattern'')"
    using t6 by simp
  have 7: "policy_call (JObj [(''name'', JStr ''p''), (''pattern'', JStr ''.*'')]) = Inl (KeyError ''definition'')"
    using t7 by simp
  from 1 2 3 4 5 6 7 8 show ?thesis by (intro conjI)
qed

text \<open>
  Claim C5 as stated fails: a document with the same queue name twice is applied, both
  times, and the handler succeeds; and a queue without a name fails the handler only
  after two requests have been sent.
\<close>

theorem malformed_topology_counterexample:
  "on_event (example_runtime no_content) (example_event ''Create'' ''twice'') world0 =
     (Inr (JObj [(''PhysicalResourceId'', JStr ''rabbitmq-topology-v1''),
                 (''Data'', JObj [(''exchanges'', JStr ''0''), (''queues'', JStr ''2''),
                                  (''bindings'', JStr ''0''), (''policies'', JStr ''0'')])]),
      \<lparr>secret_reads = [(JStr ''us-east-2'', JStr ''arn'')],
       sent = map (request_of (example_client no_content)) [orders_queue_call, orders_queue_call]\<rparr>) \<and>
   on_event (example_runtime no_content) (example_event ''Create'' ''nameless'') world0 =
     (Inl (KeyError ''name''),
      \<lparr>secret_reads = [(JStr ''us-east-2'', JStr ''arn'')],
       sent = map (request_of (example_client no_content)) [orders_exchange_call, orders_queue_call]\<rparr>)"
  by (simp add: handler_defs example_defs request_of_def call_defs)

end
